theory Spec2Isabelle
  imports Complex_Main
begin

section \<open>Data model\<close>

text \<open>
  Both modules work on xarray objects with the dimensions (time, latitude, longitude).
  One record stands for such an object: the three coordinate axes and the dense array
  of the data variable (\<open>SWE\<close>, \<open>swe_upscaled\<close>, \<open>accum_precip\<close> or \<open>lwf\<close>), indexed
  \<open>[time][latitude][longitude]\<close>.

  The SNODAS files call their spatial axes \<open>lat\<close> and \<open>lon\<close>; the record has one pair
  of names for both kinds of dataset.

  A cell is a floating-point number of the source. It is modelled as a real, and
  \<open>None\<close> is NaN, the value the source uses for missing data. The arithmetic of
  \<open>calculate_lwf\<close> is given twice: over exact reals (\<open>calculate_lwf\<close>), where the
  rounding of IEEE doubles is left out, and with every operation rounded to the nearest
  double (\<open>calculate_lwf_double\<close>), for the statements about the numbers that the results
  hold. The infinities are outside both.
  Timestamps are \<open>datetime64\<close> values, integers counted from the epoch.
\<close>

type_synonym cell = "real option"

type_synonym grid = "cell list list"

record data_array =
  time :: "int list"
  latitude :: "real list"
  longitude :: "real list"
  data :: "grid list"

text \<open>
  A two-dimensional object, as \<open>sel(time=...)\<close> returns it: the spatial axes and one
  grid. (Its scalar time coordinate plays no role in what follows and is left out.)
\<close>

record slice =
  lat :: "real list"
  lon :: "real list"
  cells :: grid

text \<open>The exceptions of Python, numpy, xarray and scipy that the two functions can raise.\<close>

datatype error = KeyError | IndexError | ValueError | QhullError

text \<open>
  The invariants of a dataset: the data array has the shape given by the axes, and the
  labels of each axis are distinct (each axis is a unique index).
\<close>

definition shape_ok :: "real list \<Rightarrow> real list \<Rightarrow> grid \<Rightarrow> bool" where
  "shape_ok las los g \<longleftrightarrow>
     length g = length las \<and> (\<forall>row \<in> set g. length row = length los)"

definition wf_data_array :: "data_array \<Rightarrow> bool" where
  "wf_data_array a \<longleftrightarrow>
     distinct (time a) \<and> distinct (latitude a) \<and> distinct (longitude a) \<and>
     length (data a) = length (time a) \<and>
     (\<forall>g \<in> set (data a). shape_ok (latitude a) (longitude a) g)"

section \<open>The xarray operations used by \<open>calculate_lwf\<close>\<close>

text \<open>The position of the first occurrence of a label in an index.\<close>

definition first_index :: "'a \<Rightarrow> 'a list \<Rightarrow> nat" where
  "first_index x xs = length (takeWhile (\<lambda>y. y \<noteq> x) xs)"

text \<open>
  \<open>a.sel(time=d)\<close>: selection by the exact label. A label that is not in the time index
  raises KeyError. The time index is unique (see \<open>wf_data_array\<close>), so a label that is
  present selects one grid.
\<close>

definition sel_time :: "data_array \<Rightarrow> int \<Rightarrow> error + slice" where
  "sel_time a d =
     (if d \<in> set (time a)
      then Inr \<lparr>lat = latitude a, lon = longitude a,
                cells = data a ! first_index d (time a)\<rparr>
      else Inl KeyError)"

text \<open>Arithmetic on cells: NaN in, NaN out.\<close>

definition cell_sub :: "cell \<Rightarrow> cell \<Rightarrow> cell" where
  "cell_sub a b = (case a of None \<Rightarrow> None | Some x \<Rightarrow> (case b of None \<Rightarrow> None | Some y \<Rightarrow> Some (x - y)))"

definition cell_add :: "cell \<Rightarrow> cell \<Rightarrow> cell" where
  "cell_add a b = (case a of None \<Rightarrow> None | Some x \<Rightarrow> (case b of None \<Rightarrow> None | Some y \<Rightarrow> Some (x + y)))"

definition cell_div :: "cell \<Rightarrow> real \<Rightarrow> cell" where
  "cell_div a k = (case a of None \<Rightarrow> None | Some x \<Rightarrow> Some (x / k))"

definition cell_mul :: "cell \<Rightarrow> real \<Rightarrow> cell" where
  "cell_mul a k = (case a of None \<Rightarrow> None | Some x \<Rightarrow> Some (x * k))"

text \<open>
  \<open>xr.where(lwf < 0, 0, lwf)\<close> on one cell: the comparison \<open>NaN < 0\<close> is false, so a
  NaN cell keeps its value.
\<close>

definition cell_where_neg :: "cell \<Rightarrow> cell" where
  "cell_where_neg a = (case a of None \<Rightarrow> None | Some x \<Rightarrow> (if x < 0 then Some 0 else Some x))"

text \<open>
  A binary operation of xarray first aligns its operands: each dimension index of the
  result is the inner join of the operands' indexes (the labels of the left operand that
  the right operand has too, in the order of the left operand), and both operands are
  reindexed on it by label.
\<close>

definition join_inner :: "real list \<Rightarrow> real list \<Rightarrow> real list" where
  "join_inner xs ys = filter (\<lambda>x. x \<in> set ys) xs"

definition reindex :: "slice \<Rightarrow> real list \<Rightarrow> real list \<Rightarrow> grid" where
  "reindex s las los =
     map (\<lambda>la. map (\<lambda>lo. cells s ! first_index la (lat s) ! first_index lo (lon s)) los) las"

definition binop :: "(cell \<Rightarrow> cell \<Rightarrow> cell) \<Rightarrow> slice \<Rightarrow> slice \<Rightarrow> slice" where
  "binop f a b =
     (let las = join_inner (lat a) (lat b);
          los = join_inner (lon a) (lon b)
      in \<lparr>lat = las, lon = los,
          cells = map2 (map2 f) (reindex a las los) (reindex b las los)\<rparr>)"

definition slice_map :: "(cell \<Rightarrow> cell) \<Rightarrow> slice \<Rightarrow> slice" where
  "slice_map f s = s\<lparr>cells := map (map f) (cells s)\<rparr>"

text \<open>
  \<open>lwf_data[i, :, :] = s\<close>: xarray compares the dimension coordinates of the assigned
  object with those of the indexed array and raises IndexError when they conflict.
\<close>

definition assign_row :: "data_array \<Rightarrow> nat \<Rightarrow> slice \<Rightarrow> error + data_array" where
  "assign_row a i s =
     (if lat s \<noteq> latitude a \<or> lon s \<noteq> longitude a then Inl IndexError
      else Inr (a\<lparr>data := (data a)[i := cells s]\<rparr>))"

section \<open>\<open>calculate_lwf\<close> (lwf.py)\<close>

text \<open>
  The loop \<open>for t in range(1, len(swe.time))\<close>, over the list of its indices. The array
  \<open>lwf_data\<close> that the source fills in place is passed along.
\<close>

fun lwf_loop :: "data_array \<Rightarrow> data_array \<Rightarrow> data_array \<Rightarrow> nat list \<Rightarrow> error + data_array" where
  "lwf_loop swe precip lwf_data [] = Inr lwf_data"
| "lwf_loop swe precip lwf_data (t # ts) =
     (let current_date = time swe ! t;
          previous_date = time swe ! (t - 1)
      in case sel_time swe current_date of Inl e \<Rightarrow> Inl e | Inr swe_current \<Rightarrow>
        (case sel_time swe previous_date of Inl e \<Rightarrow> Inl e | Inr swe_previous \<Rightarrow>
        (case sel_time precip current_date of Inl e \<Rightarrow> Inl e | Inr precip_current \<Rightarrow>
        (let lwf = binop cell_add (binop cell_sub swe_previous swe_current) precip_current;
             lwf = slice_map cell_where_neg lwf;
             lwf = slice_map (\<lambda>c. cell_div c (86400 * 1000)) lwf
         in case assign_row lwf_data (t - 1) lwf of Inl e \<Rightarrow> Inl e
            | Inr lwf_data' \<Rightarrow> lwf_loop swe precip lwf_data' ts))))"

text \<open>
  \<open>np.zeros\<close> raises ValueError on the negative dimension \<open>len(swe.time) - 1\<close> of an
  empty time axis. The second result is \<open>lwf_data * 86400 * 1000\<close>.
\<close>

definition calculate_lwf :: "data_array \<Rightarrow> data_array \<Rightarrow> error + (data_array \<times> data_array)" where
  "calculate_lwf swe precip =
     (if length (time swe) = 0 then Inl ValueError
      else
        let lwf_data = \<lparr>time = tl (time swe), latitude = latitude swe, longitude = longitude swe,
                        data = replicate (length (time swe) - 1)
                                 (replicate (length (latitude swe))
                                    (replicate (length (longitude swe)) (Some 0)))\<rparr>
        in case lwf_loop swe precip lwf_data [1..<length (time swe)] of
             Inl e \<Rightarrow> Inl e
           | Inr lwf_data \<Rightarrow>
               Inr (lwf_data,
                    lwf_data\<lparr>data := map (map (map (\<lambda>c. cell_mul (cell_mul c 86400) 1000))) (data lwf_data)\<rparr>))"


section \<open>\<open>resample_SNODAS_to_CaPA\<close> (resample.py)\<close>

text \<open>
  \<open>a.where(cond, drop=True)\<close> for a condition on the (latitude, longitude) plane: a
  label of one axis is kept when the condition holds somewhere along the other axis, the
  cells that are kept and do not satisfy the condition are set to NaN, and the time axis
  is not touched.
\<close>

definition where_drop :: "data_array \<Rightarrow> (real \<Rightarrow> real \<Rightarrow> bool) \<Rightarrow> data_array" where
  "where_drop a cond =
     (let keep_la = (\<lambda>la. \<exists>lo \<in> set (longitude a). cond la lo);
          keep_lo = (\<lambda>lo. \<exists>la \<in> set (latitude a). cond la lo)
      in \<lparr>time = time a,
          latitude = filter keep_la (latitude a),
          longitude = filter keep_lo (longitude a),
          data = map (\<lambda>g.
                   map (\<lambda>(la, row).
                          map (\<lambda>(lo, c). if cond la lo then c else None)
                            (filter (\<lambda>(lo, c). keep_lo lo) (zip (longitude a) row)))
                     (filter (\<lambda>(la, row). keep_la la) (zip (latitude a) g)))
                   (data a)\<rparr>)"

text \<open>
  The condition of the crop. The bounds are the first and the last element of the axes of
  the SNODAS dataset (\<open>SNODAS_lon_range[0]\<close>, \<open>SNODAS_lon_range[-1]\<close>, and the same for
  the latitude).
\<close>

definition in_extent :: "real list \<Rightarrow> real list \<Rightarrow> real \<Rightarrow> real \<Rightarrow> bool" where
  "in_extent SNODAS_lat_range SNODAS_lon_range la lo \<longleftrightarrow>
     lo \<ge> hd SNODAS_lon_range \<and> lo \<le> last SNODAS_lon_range \<and>
     la \<ge> hd SNODAS_lat_range \<and> la \<le> last SNODAS_lat_range"

text \<open>Indexing an empty axis with \<open>[0]\<close> raises IndexError.\<close>

definition crop_CaPA :: "data_array \<Rightarrow> data_array \<Rightarrow> error + data_array" where
  "crop_CaPA SNODAS_SWE CaPA =
     (if longitude SNODAS_SWE = [] \<or> latitude SNODAS_SWE = [] then Inl IndexError
      else Inr (where_drop CaPA (in_extent (latitude SNODAS_SWE) (longitude SNODAS_SWE))))"

text \<open>
  \<open>np.meshgrid\<close> of the two axes: the (latitude, longitude) pair of every cell, row by
  row.
\<close>

definition meshgrid :: "real list \<Rightarrow> real list \<Rightarrow> (real \<times> real) list list" where
  "meshgrid lons lats = map (\<lambda>la. map (\<lambda>lo. (la, lo)) lons) lats"

text \<open>
  The triangulation of the valid points and the piecewise-linear interpolation on it are
  the work of scipy and Qhull: they are a parameter of the model, a function from the
  sample points, their values and the query points to the interpolated grid, which may
  fail itself (on collinear points). What the model fixes is that \<open>griddata\<close> builds the
  triangulation before it evaluates anything, that an empty set of points raises
  ValueError, and that Qhull rejects an input of one or two points in the plane
  (QhullError).
\<close>

type_synonym interpolator =
  "(real \<times> real) list \<Rightarrow> real list \<Rightarrow> (real \<times> real) list list \<Rightarrow> error + grid"

definition griddata ::
  "interpolator \<Rightarrow> (real \<times> real) list \<Rightarrow> real list \<Rightarrow> (real \<times> real) list list \<Rightarrow> error + grid" where
  "griddata interp points vs xi =
     (if length points = 0 then Inl ValueError
      else if length points < 3 then Inl QhullError
      else interp points vs xi)"

text \<open>
  The points of the SNODAS grid whose value is not NaN, with their values
  (\<open>points[valid_indices]\<close>, \<open>values[valid_indices]\<close>).
\<close>

definition valid_samples :: "(real \<times> real) list \<Rightarrow> cell list \<Rightarrow> ((real \<times> real) \<times> real) list" where
  "valid_samples points vs =
     concat (map (\<lambda>(p, c). case c of None \<Rightarrow> [] | Some v \<Rightarrow> [(p, v)]) (zip points vs))"

text \<open>
  One pass of the loop over the time steps. A boolean mask whose length is not that of
  the indexed array raises IndexError.
\<close>

definition resample_step ::
  "interpolator \<Rightarrow> data_array \<Rightarrow> (real \<times> real) list \<Rightarrow> (real \<times> real) list list \<Rightarrow> nat \<Rightarrow> error + grid" where
  "resample_step interp SNODAS_SWE points xi t =
     (let swe_values = data SNODAS_SWE ! t;
          vs = concat swe_values
      in if length vs \<noteq> length points then Inl IndexError
         else let valid = valid_samples points vs
              in griddata interp (map fst valid) (map snd valid) xi)"

fun resample_loop ::
  "interpolator \<Rightarrow> data_array \<Rightarrow> (real \<times> real) list \<Rightarrow> (real \<times> real) list list \<Rightarrow>
     grid list \<Rightarrow> nat list \<Rightarrow> error + grid list" where
  "resample_loop interp SNODAS_SWE points xi upscaled_swe [] = Inr upscaled_swe"
| "resample_loop interp SNODAS_SWE points xi upscaled_swe (t # ts) =
     (case resample_step interp SNODAS_SWE points xi t of
        Inl e \<Rightarrow> Inl e
      | Inr upscaled_values \<Rightarrow>
          resample_loop interp SNODAS_SWE points xi (upscaled_swe[t := upscaled_values]) ts)"

definition resample_SNODAS_to_CaPA ::
  "interpolator \<Rightarrow> data_array \<Rightarrow> data_array \<Rightarrow> error + (data_array \<times> data_array)" where
  "resample_SNODAS_to_CaPA interp SNODAS_SWE CaPA =
     (case crop_CaPA SNODAS_SWE CaPA of
        Inl e \<Rightarrow> Inl e
      | Inr CaPA' \<Rightarrow>
          let time_dim = length (time SNODAS_SWE);
              upscaled_swe = replicate time_dim
                               (replicate (length (latitude CaPA'))
                                  (replicate (length (longitude CaPA')) (Some 0)));
              points = concat (meshgrid (longitude SNODAS_SWE) (latitude SNODAS_SWE));
              xi = meshgrid (longitude CaPA') (latitude CaPA')
          in case resample_loop interp SNODAS_SWE points xi upscaled_swe [0..<time_dim] of
               Inl e \<Rightarrow> Inl e
             | Inr upscaled_swe \<Rightarrow>
                 Inr (\<lparr>time = time SNODAS_SWE, latitude = latitude CaPA',
                       longitude = longitude CaPA', data = upscaled_swe\<rparr>, CaPA'))"

text \<open>The number of cells of one time step that are not NaN.\<close>

definition count_valid :: "grid \<Rightarrow> nat" where
  "count_valid g = length (filter (\<lambda>c. c \<noteq> None) (concat g))"

text \<open>
  The passes of the loop before the time step \<open>t\<close> all return a grid, on the points of the
  source and the query points of the cropped target.
\<close>

definition steps_succeed :: "interpolator \<Rightarrow> data_array \<Rightarrow> data_array \<Rightarrow> nat \<Rightarrow> bool" where
  "steps_succeed interp SNODAS_SWE CaPA' t \<longleftrightarrow>
     (\<forall>u \<in> set [0..<t].
        case resample_step interp SNODAS_SWE
               (concat (meshgrid (longitude SNODAS_SWE) (latitude SNODAS_SWE)))
               (meshgrid (longitude CaPA') (latitude CaPA')) u of
          Inl e \<Rightarrow> False
        | Inr upscaled_values \<Rightarrow> True)"

section \<open>Notions used in the statements\<close>

text \<open>
  The precondition of \<open>calculate_lwf\<close>: two well-formed datasets on one spatial grid, the
  axes equal element by element.
\<close>

definition aligned :: "data_array \<Rightarrow> data_array \<Rightarrow> bool" where
  "aligned swe precip \<longleftrightarrow>
     wf_data_array swe \<and> wf_data_array precip \<and>
     latitude precip = latitude swe \<and> longitude precip = longitude swe"

text \<open>Every timestamp of \<open>swe\<close> but the first is a timestamp of \<open>precip\<close>.\<close>

definition times_present :: "data_array \<Rightarrow> data_array \<Rightarrow> bool" where
  "times_present swe precip \<longleftrightarrow> (\<forall>d \<in> set (tl (time swe)). d \<in> set (time precip))"

text \<open>The grid of \<open>precip\<close> at the timestamp \<open>d\<close>, found by the value of the timestamp.\<close>

definition precip_at :: "data_array \<Rightarrow> int \<Rightarrow> grid" where
  "precip_at precip d = data precip ! first_index d (time precip)"

text \<open>The grid that one pass of the loop of \<open>calculate_lwf\<close> computes from three aligned grids.\<close>

definition rate_grid :: "grid \<Rightarrow> grid \<Rightarrow> grid \<Rightarrow> grid" where
  "rate_grid p c q =
     map (map (\<lambda>x. cell_div x (86400 * 1000)))
       (map (map cell_where_neg) (map2 (map2 cell_add) (map2 (map2 cell_sub) p c) q))"

definition flux_at :: "data_array \<Rightarrow> data_array \<Rightarrow> nat \<Rightarrow> grid" where
  "flux_at swe precip t =
     rate_grid (data swe ! (t - 1)) (data swe ! t) (precip_at precip (time swe ! t))"

definition rate_rows :: "data_array \<Rightarrow> data_array \<Rightarrow> grid list" where
  "rate_rows swe precip = map (flux_at swe precip) [1..<length (time swe)]"

text \<open>The rows of \<open>lwf_data\<close> after the passes \<open>ts\<close> of the loop, each pass writing the grid \<open>G t\<close>.\<close>

definition lwf_rows :: "(nat \<Rightarrow> grid) \<Rightarrow> grid list \<Rightarrow> nat list \<Rightarrow> grid list" where
  "lwf_rows G d ts = foldl (\<lambda>d t. d[t - 1 := G t]) d ts"

text \<open>A cell that is NaN or not negative, and an array of such cells.\<close>

definition nonneg_cell :: "cell \<Rightarrow> bool" where
  "nonneg_cell c = (case c of None \<Rightarrow> True | Some v \<Rightarrow> 0 \<le> v)"

definition nonneg_rows :: "grid list \<Rightarrow> bool" where
  "nonneg_rows d \<longleftrightarrow> (\<forall>g \<in> set d. \<forall>row \<in> set g. \<forall>c \<in> set row. nonneg_cell c)"


section \<open>IEEE double arithmetic\<close>

text \<open>
  The arrays of \<open>calculate_lwf\<close> hold 64-bit floats: \<open>swe_upscaled\<close> is the array that
  \<open>resample_SNODAS_to_CaPA\<close> creates with \<open>np.zeros\<close>, \<open>lwf_data\<close> is created with
  \<open>np.zeros\<close> too, and an operation of numpy between a 64-bit float array and another
  float array or a Python integer is carried out on 64-bit floats. Each operation gives
  the double nearest to its exact result, a tie going to the double whose significand is
  even.

  A finite double is \<open>n * 2 ^ (e - 52)\<close> for an integer \<open>n\<close> of magnitude at most
  \<open>2 ^ 53\<close> and an exponent \<open>e\<close> from \<open>-1022\<close> to \<open>1023\<close>. The exponent of a real
  \<open>x\<close> is the largest \<open>e\<close> in that range with \<open>2 ^ e \<le> \<bar>x\<bar>\<close>, and \<open>-1022\<close> when there
  is none (zero and the subnormal range); it is found by a scan downwards from 1023.
\<close>

definition round_even :: "real \<Rightarrow> int" where
  "round_even r =
     (let n = \<lfloor>r\<rfloor>; f = r - of_int n
      in if f < 1/2 then n else if 1/2 < f then n + 1 else if even n then n else n + 1)"

fun scan_exponent :: "nat \<Rightarrow> int \<Rightarrow> real \<Rightarrow> int" where
  "scan_exponent 0 e x = e"
| "scan_exponent (Suc n) e x = (if 2 powi e \<le> x then e else scan_exponent n (e - 1) x)"

definition double_exponent :: "real \<Rightarrow> int" where
  "double_exponent x = scan_exponent 2045 1023 \<bar>x\<bar>"

text \<open>
  The double nearest to a real. A result of magnitude \<open>2 ^ 1024\<close> or more overflows to
  an infinity in the source, which is outside the model: the statements about
  \<open>round_double\<close> keep their operands below \<open>2 ^ 1022\<close> (see \<open>double_operand\<close>).
  The two zeros of IEEE are one value here; they compare equal in the source.
\<close>

definition round_double :: "real \<Rightarrow> real" where
  "round_double x =
     (let u = 2 powi (double_exponent x - 52) in of_int (round_even (x / u)) * u)"

text \<open>A value that a cell of the inputs can hold: a double, here of magnitude below \<open>2 ^ 1022\<close>.\<close>

definition double_operand :: "real \<Rightarrow> bool" where
  "double_operand x \<longleftrightarrow> round_double x = x \<and> \<bar>x\<bar> < 2 ^ 1022"

text \<open>The arithmetic on cells, rounded: NaN in, NaN out.\<close>

definition double_sub :: "cell \<Rightarrow> cell \<Rightarrow> cell" where
  "double_sub a b =
     (case a of None \<Rightarrow> None
      | Some x \<Rightarrow> (case b of None \<Rightarrow> None | Some y \<Rightarrow> Some (round_double (x - y))))"

definition double_add :: "cell \<Rightarrow> cell \<Rightarrow> cell" where
  "double_add a b =
     (case a of None \<Rightarrow> None
      | Some x \<Rightarrow> (case b of None \<Rightarrow> None | Some y \<Rightarrow> Some (round_double (x + y))))"

definition double_div :: "cell \<Rightarrow> real \<Rightarrow> cell" where
  "double_div a k = (case a of None \<Rightarrow> None | Some x \<Rightarrow> Some (round_double (x / k)))"

definition double_mul :: "cell \<Rightarrow> real \<Rightarrow> cell" where
  "double_mul a k = (case a of None \<Rightarrow> None | Some x \<Rightarrow> Some (round_double (x * k)))"

text \<open>
  \<open>calculate_lwf\<close> with the rounding of each operation: the loop and the function are
  those of \<open>lwf_loop\<close> and \<open>calculate_lwf\<close> above, line by line, with the rounded
  operations in the place of the exact ones. \<open>xr.where(lwf < 0, 0, lwf)\<close> selects and does
  not round; the divisor \<open>86400 * 1000\<close> is a product of Python integers and is exact;
  \<open>lwf_data * 86400 * 1000\<close> is two multiplications, each rounded.
\<close>

fun lwf_loop_double ::
  "data_array \<Rightarrow> data_array \<Rightarrow> data_array \<Rightarrow> nat list \<Rightarrow> error + data_array" where
  "lwf_loop_double swe precip lwf_data [] = Inr lwf_data"
| "lwf_loop_double swe precip lwf_data (t # ts) =
     (let current_date = time swe ! t;
          previous_date = time swe ! (t - 1)
      in case sel_time swe current_date of Inl e \<Rightarrow> Inl e | Inr swe_current \<Rightarrow>
        (case sel_time swe previous_date of Inl e \<Rightarrow> Inl e | Inr swe_previous \<Rightarrow>
        (case sel_time precip current_date of Inl e \<Rightarrow> Inl e | Inr precip_current \<Rightarrow>
        (let lwf = binop double_add (binop double_sub swe_previous swe_current) precip_current;
             lwf = slice_map cell_where_neg lwf;
             lwf = slice_map (\<lambda>c. double_div c (86400 * 1000)) lwf
         in case assign_row lwf_data (t - 1) lwf of Inl e \<Rightarrow> Inl e
            | Inr lwf_data' \<Rightarrow> lwf_loop_double swe precip lwf_data' ts))))"

definition calculate_lwf_double ::
  "data_array \<Rightarrow> data_array \<Rightarrow> error + (data_array \<times> data_array)" where
  "calculate_lwf_double swe precip =
     (if length (time swe) = 0 then Inl ValueError
      else
        let lwf_data = \<lparr>time = tl (time swe), latitude = latitude swe, longitude = longitude swe,
                        data = replicate (length (time swe) - 1)
                                 (replicate (length (latitude swe))
                                    (replicate (length (longitude swe)) (Some 0)))\<rparr>
        in case lwf_loop_double swe precip lwf_data [1..<length (time swe)] of
             Inl e \<Rightarrow> Inl e
           | Inr lwf_data \<Rightarrow>
               Inr (lwf_data,
                    lwf_data\<lparr>data := map (map (map (\<lambda>c. double_mul (double_mul c 86400) 1000)))
                                          (data lwf_data)\<rparr>))"

text \<open>The grid of one pass of that loop on three aligned grids, and the rows of all passes.\<close>

definition rate_grid_double :: "grid \<Rightarrow> grid \<Rightarrow> grid \<Rightarrow> grid" where
  "rate_grid_double p c q =
     map (map (\<lambda>x. double_div x (86400 * 1000)))
       (map (map cell_where_neg) (map2 (map2 double_add) (map2 (map2 double_sub) p c) q))"

definition flux_at_double :: "data_array \<Rightarrow> data_array \<Rightarrow> nat \<Rightarrow> grid" where
  "flux_at_double swe precip t =
     rate_grid_double (data swe ! (t - 1)) (data swe ! t) (precip_at precip (time swe ! t))"

definition rate_rows_double :: "data_array \<Rightarrow> data_array \<Rightarrow> grid list" where
  "rate_rows_double swe precip = map (flux_at_double swe precip) [1..<length (time swe)]"

text \<open>
  The three numbers of one cell as the source computes them: the flux
  \<open>max(0, swe[t-1] - swe[t] + precip[t])\<close> with its two rounded operations, the rate
  \<open>flux / 86400000\<close>, and the daily value \<open>rate * 86400 * 1000\<close>.
\<close>

definition double_flux :: "real \<Rightarrow> real \<Rightarrow> real \<Rightarrow> real" where
  "double_flux a b p = max 0 (round_double (round_double (a - b) + p))"

definition double_rate :: "real \<Rightarrow> real" where
  "double_rate flux = round_double (flux / 86400000)"

definition double_daily :: "real \<Rightarrow> real" where
  "double_daily rate = round_double (round_double (rate * 86400) * 1000)"


section \<open>Concrete inputs\<close>

text \<open>
  Two days \<open>d0 = 0\<close> and \<open>d1 = 1\<close> on a grid of two by two cells: a uniform snow water
  equivalent that falls from 10 to 8, one that rises from 8 to 10, one with a missing
  cell, one with a single day, and a uniform precipitation of 1.
\<close>

definition uniform :: "real \<Rightarrow> grid" where
  "uniform v = [[Some v, Some v], [Some v, Some v]]"

definition swe_10_8 :: data_array where
  "swe_10_8 = \<lparr>time = [0, 1], latitude = [0, 1], longitude = [0, 1],
                data = [uniform 10, uniform 8]\<rparr>"

definition swe_8_10 :: data_array where
  "swe_8_10 = \<lparr>time = [0, 1], latitude = [0, 1], longitude = [0, 1],
                data = [uniform 8, uniform 10]\<rparr>"

definition swe_missing :: data_array where
  "swe_missing = \<lparr>time = [0, 1], latitude = [0, 1], longitude = [0, 1],
                   data = [[[None, Some 10], [Some 10, Some 10]], uniform 8]\<rparr>"

definition swe_one_day :: data_array where
  "swe_one_day = \<lparr>time = [0], latitude = [0, 1], longitude = [0, 1], data = [uniform 10]\<rparr>"

definition precip_1 :: data_array where
  "precip_1 = \<lparr>time = [0, 1], latitude = [0, 1], longitude = [0, 1],
                data = [uniform 1, uniform 1]\<rparr>"

text \<open>A precipitation that has the first day only.\<close>

definition precip_d0 :: data_array where
  "precip_d0 = \<lparr>time = [0], latitude = [0, 1], longitude = [0, 1], data = [uniform 1]\<rparr>"

text \<open>A precipitation of 1 on a larger grid, with one more row at the latitude 2.\<close>

definition precip_wide :: data_array where
  "precip_wide = \<lparr>time = [0, 1], latitude = [0, 1, 2], longitude = [0, 1],
                   data = [[[Some 1, Some 1], [Some 1, Some 1], [Some 1, Some 1]],
                           [[Some 1, Some 1], [Some 1, Some 1], [Some 1, Some 1]]]\<rparr>"

text \<open>A precipitation of 1 on a grid that has none of the latitudes 0 and 1.\<close>

definition precip_shifted :: data_array where
  "precip_shifted = \<lparr>time = [0, 1], latitude = [5, 6], longitude = [0, 1],
                      data = [uniform 1, uniform 1]\<rparr>"

text \<open>
  A source grid of three by three cells with the latitudes in descending order (north to
  south), the same grid in ascending order, and a target grid whose four inner cells lie
  within the extent of the source.
\<close>

definition row3 :: "real \<Rightarrow> cell list" where
  "row3 v = [Some v, Some v, Some v]"

definition snodas_desc :: data_array where
  "snodas_desc = \<lparr>time = [0], latitude = [2, 1, 0], longitude = [0, 1, 2],
                   data = [[row3 10, row3 10, row3 10]]\<rparr>"

definition snodas_asc :: data_array where
  "snodas_asc = \<lparr>time = [0], latitude = [0, 1, 2], longitude = [0, 1, 2],
                  data = [[row3 10, row3 10, row3 10]]\<rparr>"

definition capa_target :: data_array where
  "capa_target = \<lparr>time = [0, 1], latitude = [-1, 1/2, 3/2, 3], longitude = [1/2, 3/2, 3],
                   data = [[row3 1, row3 1, row3 1, row3 1], [row3 2, row3 2, row3 2, row3 2]]\<rparr>"

text \<open>A source whose second day has a single valid cell.\<close>

definition snodas_gap :: data_array where
  "snodas_gap = \<lparr>time = [0, 1], latitude = [0, 1], longitude = [0, 1],
                  data = [uniform 10, [[Some 10, None], [None, None]]]\<rparr>"

text \<open>A source whose second day has no valid cell.\<close>

definition snodas_void :: data_array where
  "snodas_void = \<lparr>time = [0, 1], latitude = [0, 1], longitude = [0, 1],
                   data = [uniform 10, [[None, None], [None, None]]]\<rparr>"

text \<open>
  An interpolator to run the model with: it never fails and gives NaN at every query
  point.
\<close>

definition nan_interp :: interpolator where
  "nan_interp points vs xi = Inr (map (map (\<lambda>q. None)) xi)"


section \<open>Label lookup and alignment on equal axes\<close>

lemma first_index_nth:
  "distinct xs \<Longrightarrow> i < length xs \<Longrightarrow> first_index (xs ! i) xs = i"
proof (induction xs arbitrary: i)
  case Nil
  then show ?case by simp
next
  case (Cons a xs)
  show ?case
  proof (cases i)
    case 0
    then show ?thesis by (simp add: first_index_def)
  next
    case (Suc k)
    with Cons.prems have k: "k < length xs" and d: "distinct xs" and na: "xs ! k \<noteq> a"
      by auto
    from Cons.IH [OF d k] na Suc show ?thesis
      by (simp add: first_index_def)
  qed
qed

lemma first_index_less:
  "x \<in> set xs \<Longrightarrow> first_index x xs < length xs"
  by (induction xs) (auto simp: first_index_def)

lemma map_first_index:
  "distinct xs \<Longrightarrow> length ys = length xs \<Longrightarrow> map (\<lambda>x. ys ! first_index x xs) xs = ys"
  by (rule nth_equalityI) (simp_all add: first_index_nth)

lemma join_inner_self: "join_inner xs xs = xs"
  by (simp add: join_inner_def)

lemma reindex_self:
  assumes "distinct (lat s)" "distinct (lon s)" "shape_ok (lat s) (lon s) (cells s)"
  shows "reindex s (lat s) (lon s) = cells s"
proof (rule nth_equalityI)
  show "length (reindex s (lat s) (lon s)) = length (cells s)"
    using assms by (simp add: reindex_def shape_ok_def)
next
  fix i assume "i < length (reindex s (lat s) (lon s))"
  then have i: "i < length (lat s)" by (simp add: reindex_def)
  then have "length (cells s ! i) = length (lon s)"
    using assms(3) by (simp add: shape_ok_def)
  then have "map (\<lambda>lo. cells s ! i ! first_index lo (lon s)) (lon s) = cells s ! i"
    using assms(2) by (simp add: map_first_index)
  then show "reindex s (lat s) (lon s) ! i = cells s ! i"
    using i assms(1) by (simp add: reindex_def first_index_nth)
qed


lemma shape_ok_map2:
  "shape_ok las los g \<Longrightarrow> shape_ok las los h \<Longrightarrow> shape_ok las los (map2 (map2 f) g h)"
  by (auto simp: shape_ok_def set_zip)

lemma binop_same:
  assumes "lat b = lat a" "lon b = lon a" "distinct (lat a)" "distinct (lon a)"
    "shape_ok (lat a) (lon a) (cells a)" "shape_ok (lat a) (lon a) (cells b)"
  shows "binop f a b = \<lparr>lat = lat a, lon = lon a, cells = map2 (map2 f) (cells a) (cells b)\<rparr>"
proof -
  have "reindex a (lat a) (lon a) = cells a"
    using assms by (simp add: reindex_self)
  moreover have "reindex b (lat a) (lon a) = cells b"
    using assms reindex_self [of b] by simp
  ultimately show ?thesis
    using assms by (simp add: binop_def join_inner_self)
qed

lemma wf_grid_nth:
  "wf_data_array a \<Longrightarrow> i < length (time a) \<Longrightarrow> shape_ok (latitude a) (longitude a) (data a ! i)"
  by (simp add: wf_data_array_def)



lemma lwf_step:
  assumes al: "aligned swe precip"
    and t: "1 \<le> t" "t < length (time swe)"
    and p: "time swe ! t \<in> set (time precip)"
    and acc: "latitude acc = latitude swe" "longitude acc = longitude swe"
  shows "lwf_loop swe precip acc (t # ts) =
           lwf_loop swe precip
             (acc\<lparr>data := (data acc)[t - 1 := rate_grid (data swe ! (t - 1)) (data swe ! t)
                                                  (precip_at precip (time swe ! t))]\<rparr>) ts"
proof -
  from al have wf: "wf_data_array swe" and wfp: "wf_data_array precip"
    and la: "latitude precip = latitude swe" and lo: "longitude precip = longitude swe"
    by (simp_all add: aligned_def)
  from wf have d: "distinct (time swe)" "distinct (latitude swe)" "distinct (longitude swe)"
    by (simp_all add: wf_data_array_def)
  from t have t1: "t - 1 < length (time swe)" by simp
  have cur: "sel_time swe (time swe ! t) =
      Inr \<lparr>lat = latitude swe, lon = longitude swe, cells = data swe ! t\<rparr>"
    using t d(1) by (simp add: sel_time_def first_index_nth)
  have prev: "sel_time swe (time swe ! (t - 1)) =
      Inr \<lparr>lat = latitude swe, lon = longitude swe, cells = data swe ! (t - 1)\<rparr>"
    using t1 d(1) by (simp add: sel_time_def first_index_nth)
  have pr: "sel_time precip (time swe ! t) =
      Inr \<lparr>lat = latitude swe, lon = longitude swe, cells = precip_at precip (time swe ! t)\<rparr>"
    using p la lo by (simp add: sel_time_def precip_at_def)
  have s1: "shape_ok (latitude swe) (longitude swe) (data swe ! t)"
    using wf t by (simp add: wf_grid_nth)
  have s0: "shape_ok (latitude swe) (longitude swe) (data swe ! (t - 1))"
    using wf t1 by (simp add: wf_grid_nth)
  have sp: "shape_ok (latitude swe) (longitude swe) (precip_at precip (time swe ! t))"
    using wf_grid_nth [OF wfp first_index_less [OF p]] la lo by (simp add: precip_at_def)
  have b1: "binop cell_sub \<lparr>lat = latitude swe, lon = longitude swe, cells = data swe ! (t - 1)\<rparr>
                 \<lparr>lat = latitude swe, lon = longitude swe, cells = data swe ! t\<rparr> =
            \<lparr>lat = latitude swe, lon = longitude swe,
             cells = map2 (map2 cell_sub) (data swe ! (t - 1)) (data swe ! t)\<rparr>"
    using d s0 s1 by (simp add: binop_same)
  have b2: "binop cell_add \<lparr>lat = latitude swe, lon = longitude swe,
                 cells = map2 (map2 cell_sub) (data swe ! (t - 1)) (data swe ! t)\<rparr>
                 \<lparr>lat = latitude swe, lon = longitude swe, cells = precip_at precip (time swe ! t)\<rparr> =
            \<lparr>lat = latitude swe, lon = longitude swe,
             cells = map2 (map2 cell_add) (map2 (map2 cell_sub) (data swe ! (t - 1)) (data swe ! t))
                        (precip_at precip (time swe ! t))\<rparr>"
    using d sp shape_ok_map2 [OF s0 s1] by (simp add: binop_same)
  have "lwf_loop swe precip acc (t # ts) =
      (case assign_row acc (t - 1)
         (slice_map (\<lambda>c. cell_div c (86400 * 1000))
           (slice_map cell_where_neg
             \<lparr>lat = latitude swe, lon = longitude swe,
              cells = map2 (map2 cell_add) (map2 (map2 cell_sub) (data swe ! (t - 1)) (data swe ! t))
                        (precip_at precip (time swe ! t))\<rparr>)) of
         Inl e \<Rightarrow> Inl e | Inr lwf_data' \<Rightarrow> lwf_loop swe precip lwf_data' ts)"
    by (simp only: lwf_loop.simps Let_def cur prev pr sum.case b1 b2)
  then show ?thesis
    using acc by (simp add: slice_map_def assign_row_def rate_grid_def)
qed



lemma length_lwf_rows: "length (lwf_rows G d ts) = length d"
  by (induction ts arbitrary: d) (simp_all add: lwf_rows_def)

lemma lwf_rows_nth:
  "i < length d \<Longrightarrow> \<forall>t \<in> set ts. 1 \<le> t \<Longrightarrow>
     lwf_rows G d ts ! i = (if Suc i \<in> set ts then G (Suc i) else d ! i)"
proof (induction ts rule: rev_induct)
  case Nil
  then show ?case by (simp add: lwf_rows_def)
next
  case (snoc t ts)
  have step: "lwf_rows G d (ts @ [t]) = (lwf_rows G d ts)[t - 1 := G t]"
    by (simp add: lwf_rows_def)
  from snoc.prems have t: "1 \<le> t" by simp
  show ?case
  proof (cases "t - 1 = i")
    case True
    with snoc.prems(1) have "lwf_rows G d (ts @ [t]) ! i = G t"
      by (simp add: step length_lwf_rows)
    moreover from True t have "t = Suc i" by simp
    ultimately show ?thesis by simp
  next
    case False
    with t have "t \<noteq> Suc i" by auto
    with False snoc show ?thesis
      by (simp add: step)
  qed
qed


lemma lwf_loop_ok:
  assumes "aligned swe precip"
    and "\<forall>t \<in> set ts. 1 \<le> t \<and> t < length (time swe) \<and> time swe ! t \<in> set (time precip)"
    and "latitude acc = latitude swe" "longitude acc = longitude swe"
  shows "lwf_loop swe precip acc ts = Inr (acc\<lparr>data := lwf_rows (flux_at swe precip) (data acc) ts\<rparr>)"
  using assms
proof (induction ts arbitrary: acc)
  case Nil
  then show ?case by (simp add: lwf_rows_def)
next
  case (Cons t ts)
  from Cons.prems have t: "1 \<le> t" "t < length (time swe)" "time swe ! t \<in> set (time precip)"
    by simp_all
  let ?acc = "acc\<lparr>data := (data acc)[t - 1 := flux_at swe precip t]\<rparr>"
  have "lwf_loop swe precip acc (t # ts) = lwf_loop swe precip ?acc ts"
    using lwf_step [OF Cons.prems(1) t Cons.prems(3,4)] by (simp add: flux_at_def)
  also have "\<dots> = Inr (?acc\<lparr>data := lwf_rows (flux_at swe precip) (data ?acc) ts\<rparr>)"
    using Cons.prems by (intro Cons.IH) simp_all
  finally show ?case by (simp add: lwf_rows_def)
qed


lemma times_present_nth:
  "times_present swe precip \<Longrightarrow> 1 \<le> t \<Longrightarrow> t < length (time swe) \<Longrightarrow>
     time swe ! t \<in> set (time precip)"
proof -
  assume a: "times_present swe precip" "1 \<le> t" "t < length (time swe)"
  then have "tl (time swe) ! (t - 1) = time swe ! t"
    by (cases "time swe") (simp_all add: nth_Cons')
  moreover from a have "t - 1 < length (tl (time swe))" by simp
  ultimately have "time swe ! t \<in> set (tl (time swe))"
    by (metis nth_mem)
  with a(1) show ?thesis by (simp add: times_present_def)
qed


lemma calculate_lwf_ok:
  assumes al: "aligned swe precip" and ne: "time swe \<noteq> []" and tp: "times_present swe precip"
  shows "calculate_lwf swe precip =
     Inr (\<lparr>time = tl (time swe), latitude = latitude swe, longitude = longitude swe,
           data = rate_rows swe precip\<rparr>,
          \<lparr>time = tl (time swe), latitude = latitude swe, longitude = longitude swe,
           data = map (map (map (\<lambda>c. cell_mul (cell_mul c 86400) 1000))) (rate_rows swe precip)\<rparr>)"
proof -
  let ?N = "length (time swe)"
  let ?z = "replicate (?N - 1) (replicate (length (latitude swe))
              (replicate (length (longitude swe)) (Some (0::real))))"
  let ?acc = "\<lparr>time = tl (time swe), latitude = latitude swe, longitude = longitude swe, data = ?z\<rparr>"
  have ts: "\<forall>t \<in> set [1..<?N]. 1 \<le> t \<and> t < ?N \<and> time swe ! t \<in> set (time precip)"
    using tp by (simp add: times_present_nth)
  have loop: "lwf_loop swe precip ?acc [1..<?N] =
      Inr (?acc\<lparr>data := lwf_rows (flux_at swe precip) (data ?acc) [1..<?N]\<rparr>)"
    by (rule lwf_loop_ok [OF al ts]) simp_all
  have rows: "lwf_rows (flux_at swe precip) ?z [1..<?N] = rate_rows swe precip"
  proof (rule nth_equalityI)
    show "length (lwf_rows (flux_at swe precip) ?z [1..<?N]) = length (rate_rows swe precip)"
      by (simp add: length_lwf_rows rate_rows_def)
  next
    fix i assume "i < length (lwf_rows (flux_at swe precip) ?z [1..<?N])"
    then have i: "i < ?N - 1" by (simp add: length_lwf_rows)
    then have "Suc i \<in> set [1..<?N]" by auto
    with i have "lwf_rows (flux_at swe precip) ?z [1..<?N] ! i = flux_at swe precip (Suc i)"
      using lwf_rows_nth [of i ?z "[1..<?N]" "flux_at swe precip"] by simp
    with i show "lwf_rows (flux_at swe precip) ?z [1..<?N] ! i = rate_rows swe precip ! i"
      by (simp add: rate_rows_def)
  qed
  from ne have "length (time swe) \<noteq> 0" by simp
  then show ?thesis
    unfolding calculate_lwf_def Let_def loop using rows by simp
qed

section \<open>Cells of the result\<close>

lemma shape_ok_nth:
  "shape_ok las los g \<Longrightarrow> i < length las \<Longrightarrow> length (g ! i) = length los"
  by (simp add: shape_ok_def)

lemma rate_grid_nth:
  assumes "shape_ok las los p" "shape_ok las los c" "shape_ok las los q"
    and "i < length las" "j < length los"
  shows "rate_grid p c q ! i ! j =
           cell_div (cell_where_neg (cell_add (cell_sub (p ! i ! j) (c ! i ! j)) (q ! i ! j)))
             (86400 * 1000)"
proof -
  have l: "length p = length las" "length c = length las" "length q = length las"
    using assms(1-3) by (simp_all add: shape_ok_def)
  have r: "length (p ! i) = length los" "length (c ! i) = length los" "length (q ! i) = length los"
    using assms by (simp_all add: shape_ok_nth)
  show ?thesis
    using assms(4,5) l r by (simp add: rate_grid_def)
qed

lemma rate_rows_cell:
  assumes al: "aligned swe precip" and tp: "times_present swe precip"
    and t: "1 \<le> t" "t < length (time swe)"
    and ij: "i < length (latitude swe)" "j < length (longitude swe)"
  shows "rate_rows swe precip ! (t - 1) ! i ! j =
           cell_div (cell_where_neg (cell_add
              (cell_sub (data swe ! (t - 1) ! i ! j) (data swe ! t ! i ! j))
              (precip_at precip (time swe ! t) ! i ! j))) (86400 * 1000)"
proof -
  from al have wf: "wf_data_array swe" and wfp: "wf_data_array precip"
    and la: "latitude precip = latitude swe" and lo: "longitude precip = longitude swe"
    by (simp_all add: aligned_def)
  from t have t1: "t - 1 < length (time swe)" by simp
  have p: "time swe ! t \<in> set (time precip)"
    using tp t by (rule times_present_nth)
  have s1: "shape_ok (latitude swe) (longitude swe) (data swe ! t)"
    using wf t by (simp add: wf_grid_nth)
  have s0: "shape_ok (latitude swe) (longitude swe) (data swe ! (t - 1))"
    using wf t1 by (simp add: wf_grid_nth)
  have sp: "shape_ok (latitude swe) (longitude swe) (precip_at precip (time swe ! t))"
    using wf_grid_nth [OF wfp first_index_less [OF p]] la lo by (simp add: precip_at_def)
  from t have "[1..<length (time swe)] ! (t - 1) = t" by simp
  with t have "rate_rows swe precip ! (t - 1) = flux_at swe precip t"
    by (simp add: rate_rows_def)
  then show ?thesis
    using rate_grid_nth [OF s0 s1 sp ij] by (simp add: flux_at_def)
qed

lemma cell_formula_Some:
  "cell_div (cell_where_neg (cell_add (cell_sub (Some a) (Some b)) (Some p))) (86400 * 1000) =
     Some (max 0 (a - b + p) / 86400000)"
  by (simp add: cell_div_def cell_where_neg_def cell_add_def cell_sub_def max_def)

lemma cell_formula_None:
  "a = None \<or> b = None \<or> p = None \<Longrightarrow>
     cell_div (cell_where_neg (cell_add (cell_sub a b) p)) (86400 * 1000) = None"
  by (auto simp: cell_div_def cell_where_neg_def cell_add_def cell_sub_def split: option.splits)

lemma daily_nth:
  assumes "t < length d" "i < length (d ! t)" "j < length (d ! t ! i)"
  shows "map (map (map f)) d ! t ! i ! j = f (d ! t ! i ! j)"
  using assms by simp

lemma rate_rows_shape:
  assumes al: "aligned swe precip" and tp: "times_present swe precip"
    and t: "1 \<le> t" "t < length (time swe)"
  shows "shape_ok (latitude swe) (longitude swe) (rate_rows swe precip ! (t - 1))"
proof -
  from al have wf: "wf_data_array swe" and wfp: "wf_data_array precip"
    and la: "latitude precip = latitude swe" and lo: "longitude precip = longitude swe"
    by (simp_all add: aligned_def)
  from t have t1: "t - 1 < length (time swe)" by simp
  have p: "time swe ! t \<in> set (time precip)"
    using tp t by (rule times_present_nth)
  have s1: "shape_ok (latitude swe) (longitude swe) (data swe ! t)"
    using wf t by (simp add: wf_grid_nth)
  have s0: "shape_ok (latitude swe) (longitude swe) (data swe ! (t - 1))"
    using wf t1 by (simp add: wf_grid_nth)
  have sp: "shape_ok (latitude swe) (longitude swe) (precip_at precip (time swe ! t))"
    using wf_grid_nth [OF wfp first_index_less [OF p]] la lo by (simp add: precip_at_def)
  from t have "[1..<length (time swe)] ! (t - 1) = t" by simp
  with t have "rate_rows swe precip ! (t - 1) = flux_at swe precip t"
    by (simp add: rate_rows_def)
  moreover have "shape_ok (latitude swe) (longitude swe) (flux_at swe precip t)"
    using s0 s1 sp by (auto simp: flux_at_def rate_grid_def shape_ok_def set_zip)
  ultimately show ?thesis by simp
qed

section \<open>The scenarios\<close>

lemmas example_defs =
  swe_10_8_def swe_8_10_def swe_missing_def swe_one_day_def precip_1_def precip_d0_def
  precip_wide_def precip_shifted_def uniform_def

lemmas lwf_eval =
  calculate_lwf_def sel_time_def first_index_def binop_def reindex_def join_inner_def
  slice_map_def assign_row_def cell_sub_def cell_add_def cell_div_def cell_mul_def
  cell_where_neg_def Let_def

lemma aligned_swe_10_8: "aligned swe_10_8 precip_1"
  by (simp add: aligned_def wf_data_array_def shape_ok_def example_defs)

lemma aligned_swe_8_10: "aligned swe_8_10 precip_1"
  by (simp add: aligned_def wf_data_array_def shape_ok_def example_defs)

lemma aligned_swe_missing: "aligned swe_missing precip_1"
  by (simp add: aligned_def wf_data_array_def shape_ok_def example_defs)

lemma aligned_precip_d0: "aligned swe_10_8 precip_d0"
  by (simp add: aligned_def wf_data_array_def shape_ok_def example_defs)

lemma times_present_precip_1:
  "times_present swe_10_8 precip_1" "times_present swe_8_10 precip_1"
  "times_present swe_missing precip_1"
  by (simp_all add: times_present_def example_defs)

lemma scenario_melt:
  "calculate_lwf swe_10_8 precip_1 =
     Inr (\<lparr>time = [1], latitude = [0, 1], longitude = [0, 1],
           data = [uniform (3 / 86400000)]\<rparr>,
          \<lparr>time = [1], latitude = [0, 1], longitude = [0, 1], data = [uniform 3]\<rparr>)"
  by (simp add: lwf_eval example_defs)

lemma scenario_accumulation:
  "calculate_lwf swe_8_10 precip_1 =
     Inr (\<lparr>time = [1], latitude = [0, 1], longitude = [0, 1], data = [uniform 0]\<rparr>,
          \<lparr>time = [1], latitude = [0, 1], longitude = [0, 1], data = [uniform 0]\<rparr>)"
  by (simp add: lwf_eval example_defs)

section \<open>Rounding to the nearest double\<close>

lemma powi_less_exponent:
  "(2::real) powi a < 2 powi b \<Longrightarrow> a < b"
proof (rule ccontr)
  assume l: "(2::real) powi a < 2 powi b" and "\<not> a < b"
  then have "b \<le> a" by simp
  then have "(2::real) powi b \<le> 2 powi a"
    by (rule power_int_increasing) simp
  with l show False by simp
qed

lemma scan_exponent_eq:
  "2 powi e0 \<le> x \<Longrightarrow> x < 2 powi (e0 + 1) \<Longrightarrow> e0 \<le> e \<Longrightarrow> e - e0 \<le> int n \<Longrightarrow>
     scan_exponent n e x = e0"
proof (induction n arbitrary: e)
  case 0
  then show ?case by simp
next
  case (Suc n)
  show ?case
  proof (cases "2 powi e \<le> x")
    case True
    with Suc.prems(2) have "(2::real) powi e < 2 powi (e0 + 1)" by simp
    then have "e < e0 + 1" by (rule powi_less_exponent)
    with Suc.prems(3) True show ?thesis by simp
  next
    case False
    with Suc.prems(1) have "(2::real) powi e0 < 2 powi e" by simp
    then have "e0 < e" by (rule powi_less_exponent)
    with False Suc.prems have "scan_exponent n (e - 1) x = e0"
      by (intro Suc.IH) simp_all
    with False show ?thesis by simp
  qed
qed

lemma double_exponent_eq:
  "2 powi e \<le> \<bar>x\<bar> \<Longrightarrow> \<bar>x\<bar> < 2 powi (e + 1) \<Longrightarrow> - 1022 \<le> e \<Longrightarrow> e \<le> 1023 \<Longrightarrow>
     double_exponent x = e"
  unfolding double_exponent_def by (rule scan_exponent_eq) simp_all

lemma round_even_eq:
  assumes "\<bar>r - of_int n\<bar> < 1/2"
  shows "round_even r = n"
proof (cases "of_int n \<le> r")
  case True
  with assms have "\<lfloor>r\<rfloor> = n" by (intro floor_unique) auto
  with assms True show ?thesis by (simp add: round_even_def)
next
  case False
  with assms have f: "\<lfloor>r\<rfloor> = n - 1" by (intro floor_unique) auto
  with assms False show ?thesis by (simp add: round_even_def Let_def)
qed

lemma round_double_eqI:
  assumes "2 powi e \<le> \<bar>x\<bar>" "\<bar>x\<bar> < 2 powi (e + 1)" "- 1022 \<le> e" "e \<le> 1023"
    and "\<bar>x / 2 powi (e - 52) - of_int n\<bar> < 1/2"
  shows "round_double x = of_int n * 2 powi (e - 52)"
  using assms(5) by (simp add: round_double_def double_exponent_eq [OF assms(1-4)] round_even_eq)

lemma round_double_0: "round_double 0 = 0"
  by (simp add: round_double_def round_even_def)

lemma round_double_2: "round_double 2 = 2"
  using round_double_eqI [of 1 2 "2 ^ 52"] by simp

lemma round_double_3: "round_double 3 = 3"
  using round_double_eqI [of 1 3 "3 * 2 ^ 51"] by simp

lemma round_double_minus_2: "round_double (- 2) = - 2"
  using round_double_eqI [of 1 "- 2" "- (2 ^ 52)"] by simp

lemma round_double_minus_1: "round_double (- 1) = - 1"
  using round_double_eqI [of 0 "- 1" "- (2 ^ 52)"] by simp

lemma round_double_rate: "round_double (3 / 86400000) = 5247073869855161 / 2 ^ 77"
  using round_double_eqI [of "- 25" "3 / 86400000" 5247073869855161] by simp

lemma round_double_rate_86400:
  "round_double (5247073869855161 / 2 ^ 77 * 86400) = 6917529027641081 / 2 ^ 61"
  using round_double_eqI [of "- 9" "5247073869855161 / 2 ^ 77 * 86400" 6917529027641081] by simp

lemma round_double_rate_1000:
  "round_double (6917529027641081 / 2 ^ 61 * 1000) = 3 - 1 / 2 ^ 51"
  using round_double_eqI [of 1 "6917529027641081 / 2 ^ 61 * 1000" 6755399441055743] by simp

lemma round_double_1: "round_double 1 = 1"
  using round_double_eqI [of 0 1 "2 ^ 52"] by simp

lemma round_double_8: "round_double 8 = 8"
  using round_double_eqI [of 3 8 "2 ^ 52"] by simp

lemma round_double_10: "round_double 10 = 10"
  using round_double_eqI [of 3 10 "5 * 2 ^ 50"] by simp

lemma double_operand_examples:
  "double_operand 10" "double_operand 8" "double_operand 1"
  by (simp_all add: double_operand_def round_double_10 round_double_8 round_double_1)

section \<open>The loop in double arithmetic\<close>

lemma lwf_step_double:
  assumes al: "aligned swe precip"
    and t: "1 \<le> t" "t < length (time swe)"
    and p: "time swe ! t \<in> set (time precip)"
    and acc: "latitude acc = latitude swe" "longitude acc = longitude swe"
  shows "lwf_loop_double swe precip acc (t # ts) =
           lwf_loop_double swe precip
             (acc\<lparr>data := (data acc)[t - 1 := rate_grid_double (data swe ! (t - 1)) (data swe ! t)
                                                  (precip_at precip (time swe ! t))]\<rparr>) ts"
proof -
  from al have wf: "wf_data_array swe" and wfp: "wf_data_array precip"
    and la: "latitude precip = latitude swe" and lo: "longitude precip = longitude swe"
    by (simp_all add: aligned_def)
  from wf have d: "distinct (time swe)" "distinct (latitude swe)" "distinct (longitude swe)"
    by (simp_all add: wf_data_array_def)
  from t have t1: "t - 1 < length (time swe)" by simp
  have cur: "sel_time swe (time swe ! t) =
      Inr \<lparr>lat = latitude swe, lon = longitude swe, cells = data swe ! t\<rparr>"
    using t d(1) by (simp add: sel_time_def first_index_nth)
  have prev: "sel_time swe (time swe ! (t - 1)) =
      Inr \<lparr>lat = latitude swe, lon = longitude swe, cells = data swe ! (t - 1)\<rparr>"
    using t1 d(1) by (simp add: sel_time_def first_index_nth)
  have pr: "sel_time precip (time swe ! t) =
      Inr \<lparr>lat = latitude swe, lon = longitude swe, cells = precip_at precip (time swe ! t)\<rparr>"
    using p la lo by (simp add: sel_time_def precip_at_def)
  have s1: "shape_ok (latitude swe) (longitude swe) (data swe ! t)"
    using wf t by (simp add: wf_grid_nth)
  have s0: "shape_ok (latitude swe) (longitude swe) (data swe ! (t - 1))"
    using wf t1 by (simp add: wf_grid_nth)
  have sp: "shape_ok (latitude swe) (longitude swe) (precip_at precip (time swe ! t))"
    using wf_grid_nth [OF wfp first_index_less [OF p]] la lo by (simp add: precip_at_def)
  have b1: "binop double_sub \<lparr>lat = latitude swe, lon = longitude swe, cells = data swe ! (t - 1)\<rparr>
                 \<lparr>lat = latitude swe, lon = longitude swe, cells = data swe ! t\<rparr> =
            \<lparr>lat = latitude swe, lon = longitude swe,
             cells = map2 (map2 double_sub) (data swe ! (t - 1)) (data swe ! t)\<rparr>"
    using d s0 s1 by (simp add: binop_same)
  have b2: "binop double_add \<lparr>lat = latitude swe, lon = longitude swe,
                 cells = map2 (map2 double_sub) (data swe ! (t - 1)) (data swe ! t)\<rparr>
                 \<lparr>lat = latitude swe, lon = longitude swe, cells = precip_at precip (time swe ! t)\<rparr> =
            \<lparr>lat = latitude swe, lon = longitude swe,
             cells = map2 (map2 double_add) (map2 (map2 double_sub) (data swe ! (t - 1)) (data swe ! t))
                        (precip_at precip (time swe ! t))\<rparr>"
    using d sp shape_ok_map2 [OF s0 s1] by (simp add: binop_same)
  have "lwf_loop_double swe precip acc (t # ts) =
      (case assign_row acc (t - 1)
         (slice_map (\<lambda>c. double_div c (86400 * 1000))
           (slice_map cell_where_neg
             \<lparr>lat = latitude swe, lon = longitude swe,
              cells = map2 (map2 double_add) (map2 (map2 double_sub) (data swe ! (t - 1)) (data swe ! t))
                        (precip_at precip (time swe ! t))\<rparr>)) of
         Inl e \<Rightarrow> Inl e | Inr lwf_data' \<Rightarrow> lwf_loop_double swe precip lwf_data' ts)"
    by (simp only: lwf_loop_double.simps Let_def cur prev pr sum.case b1 b2)
  then show ?thesis
    using acc by (simp add: slice_map_def assign_row_def rate_grid_double_def)
qed

lemma lwf_loop_double_ok:
  assumes "aligned swe precip"
    and "\<forall>t \<in> set ts. 1 \<le> t \<and> t < length (time swe) \<and> time swe ! t \<in> set (time precip)"
    and "latitude acc = latitude swe" "longitude acc = longitude swe"
  shows "lwf_loop_double swe precip acc ts = Inr (acc\<lparr>data := lwf_rows (flux_at_double swe precip) (data acc) ts\<rparr>)"
  using assms
proof (induction ts arbitrary: acc)
  case Nil
  then show ?case by (simp add: lwf_rows_def)
next
  case (Cons t ts)
  from Cons.prems have t: "1 \<le> t" "t < length (time swe)" "time swe ! t \<in> set (time precip)"
    by simp_all
  let ?acc = "acc\<lparr>data := (data acc)[t - 1 := flux_at_double swe precip t]\<rparr>"
  have "lwf_loop_double swe precip acc (t # ts) = lwf_loop_double swe precip ?acc ts"
    using lwf_step_double [OF Cons.prems(1) t Cons.prems(3,4)] by (simp add: flux_at_double_def)
  also have "\<dots> = Inr (?acc\<lparr>data := lwf_rows (flux_at_double swe precip) (data ?acc) ts\<rparr>)"
    using Cons.prems by (intro Cons.IH) simp_all
  finally show ?case by (simp add: lwf_rows_def)
qed

lemma calculate_lwf_double_ok:
  assumes al: "aligned swe precip" and ne: "time swe \<noteq> []" and tp: "times_present swe precip"
  shows "calculate_lwf_double swe precip =
     Inr (\<lparr>time = tl (time swe), latitude = latitude swe, longitude = longitude swe,
           data = rate_rows_double swe precip\<rparr>,
          \<lparr>time = tl (time swe), latitude = latitude swe, longitude = longitude swe,
           data = map (map (map (\<lambda>c. double_mul (double_mul c 86400) 1000))) (rate_rows_double swe precip)\<rparr>)"
proof -
  let ?N = "length (time swe)"
  let ?z = "replicate (?N - 1) (replicate (length (latitude swe))
              (replicate (length (longitude swe)) (Some (0::real))))"
  let ?acc = "\<lparr>time = tl (time swe), latitude = latitude swe, longitude = longitude swe, data = ?z\<rparr>"
  have ts: "\<forall>t \<in> set [1..<?N]. 1 \<le> t \<and> t < ?N \<and> time swe ! t \<in> set (time precip)"
    using tp by (simp add: times_present_nth)
  have loop: "lwf_loop_double swe precip ?acc [1..<?N] =
      Inr (?acc\<lparr>data := lwf_rows (flux_at_double swe precip) (data ?acc) [1..<?N]\<rparr>)"
    by (rule lwf_loop_double_ok [OF al ts]) simp_all
  have rows: "lwf_rows (flux_at_double swe precip) ?z [1..<?N] = rate_rows_double swe precip"
  proof (rule nth_equalityI)
    show "length (lwf_rows (flux_at_double swe precip) ?z [1..<?N]) = length (rate_rows_double swe precip)"
      by (simp add: length_lwf_rows rate_rows_double_def)
  next
    fix i assume "i < length (lwf_rows (flux_at_double swe precip) ?z [1..<?N])"
    then have i: "i < ?N - 1" by (simp add: length_lwf_rows)
    then have "Suc i \<in> set [1..<?N]" by auto
    with i have "lwf_rows (flux_at_double swe precip) ?z [1..<?N] ! i = flux_at_double swe precip (Suc i)"
      using lwf_rows_nth [of i ?z "[1..<?N]" "flux_at_double swe precip"] by simp
    with i show "lwf_rows (flux_at_double swe precip) ?z [1..<?N] ! i = rate_rows_double swe precip ! i"
      by (simp add: rate_rows_double_def)
  qed
  from ne have "length (time swe) \<noteq> 0" by simp
  then show ?thesis
    unfolding calculate_lwf_double_def Let_def loop using rows by simp
qed

lemma rate_grid_double_nth:
  assumes "shape_ok las los p" "shape_ok las los c" "shape_ok las los q"
    and "i < length las" "j < length los"
  shows "rate_grid_double p c q ! i ! j =
           double_div (cell_where_neg (double_add (double_sub (p ! i ! j) (c ! i ! j)) (q ! i ! j)))
             (86400 * 1000)"
proof -
  have l: "length p = length las" "length c = length las" "length q = length las"
    using assms(1-3) by (simp_all add: shape_ok_def)
  have r: "length (p ! i) = length los" "length (c ! i) = length los" "length (q ! i) = length los"
    using assms by (simp_all add: shape_ok_nth)
  show ?thesis
    using assms(4,5) l r by (simp add: rate_grid_double_def)
qed

lemma rate_rows_double_cell:
  assumes al: "aligned swe precip" and tp: "times_present swe precip"
    and t: "1 \<le> t" "t < length (time swe)"
    and ij: "i < length (latitude swe)" "j < length (longitude swe)"
  shows "rate_rows_double swe precip ! (t - 1) ! i ! j =
           double_div (cell_where_neg (double_add
              (double_sub (data swe ! (t - 1) ! i ! j) (data swe ! t ! i ! j))
              (precip_at precip (time swe ! t) ! i ! j))) (86400 * 1000)"
proof -
  from al have wf: "wf_data_array swe" and wfp: "wf_data_array precip"
    and la: "latitude precip = latitude swe" and lo: "longitude precip = longitude swe"
    by (simp_all add: aligned_def)
  from t have t1: "t - 1 < length (time swe)" by simp
  have p: "time swe ! t \<in> set (time precip)"
    using tp t by (rule times_present_nth)
  have s1: "shape_ok (latitude swe) (longitude swe) (data swe ! t)"
    using wf t by (simp add: wf_grid_nth)
  have s0: "shape_ok (latitude swe) (longitude swe) (data swe ! (t - 1))"
    using wf t1 by (simp add: wf_grid_nth)
  have sp: "shape_ok (latitude swe) (longitude swe) (precip_at precip (time swe ! t))"
    using wf_grid_nth [OF wfp first_index_less [OF p]] la lo by (simp add: precip_at_def)
  from t have "[1..<length (time swe)] ! (t - 1) = t" by simp
  with t have "rate_rows_double swe precip ! (t - 1) = flux_at_double swe precip t"
    by (simp add: rate_rows_double_def)
  then show ?thesis
    using rate_grid_double_nth [OF s0 s1 sp ij] by (simp add: flux_at_double_def)
qed

lemma rate_rows_double_shape:
  assumes al: "aligned swe precip" and tp: "times_present swe precip"
    and t: "1 \<le> t" "t < length (time swe)"
  shows "shape_ok (latitude swe) (longitude swe) (rate_rows_double swe precip ! (t - 1))"
proof -
  from al have wf: "wf_data_array swe" and wfp: "wf_data_array precip"
    and la: "latitude precip = latitude swe" and lo: "longitude precip = longitude swe"
    by (simp_all add: aligned_def)
  from t have t1: "t - 1 < length (time swe)" by simp
  have p: "time swe ! t \<in> set (time precip)"
    using tp t by (rule times_present_nth)
  have s1: "shape_ok (latitude swe) (longitude swe) (data swe ! t)"
    using wf t by (simp add: wf_grid_nth)
  have s0: "shape_ok (latitude swe) (longitude swe) (data swe ! (t - 1))"
    using wf t1 by (simp add: wf_grid_nth)
  have sp: "shape_ok (latitude swe) (longitude swe) (precip_at precip (time swe ! t))"
    using wf_grid_nth [OF wfp first_index_less [OF p]] la lo by (simp add: precip_at_def)
  from t have "[1..<length (time swe)] ! (t - 1) = t" by simp
  with t have "rate_rows_double swe precip ! (t - 1) = flux_at_double swe precip t"
    by (simp add: rate_rows_double_def)
  moreover have "shape_ok (latitude swe) (longitude swe) (flux_at_double swe precip t)"
    using s0 s1 sp by (auto simp: flux_at_double_def rate_grid_double_def shape_ok_def set_zip)
  ultimately show ?thesis by simp
qed

lemma double_formula_Some:
  "double_div (cell_where_neg (double_add (double_sub (Some a) (Some b)) (Some p))) (86400 * 1000) =
     Some (double_rate (double_flux a b p))"
  by (simp add: double_div_def cell_where_neg_def double_add_def double_sub_def max_def
      double_rate_def double_flux_def)

section \<open>The flux formula\<close>

lemma double_flux_melt: "double_flux 10 8 1 = 3"
  by (simp add: double_flux_def round_double_2 round_double_3)

lemma double_flux_accumulation: "double_flux 8 10 1 = 0"
  by (simp add: double_flux_def round_double_minus_2 round_double_minus_1)

lemma double_rate_3: "double_rate 3 = 5247073869855161 / 2 ^ 77"
  unfolding double_rate_def by (rule round_double_rate)

lemma double_daily_3: "double_daily (5247073869855161 / 2 ^ 77) = 3 - 1 / 2 ^ 51"
  unfolding double_daily_def round_double_rate_86400 by (rule round_double_rate_1000)

lemma double_rate_0: "double_rate 0 = 0"
  by (simp add: double_rate_def round_double_0)

lemma double_daily_0: "double_daily 0 = 0"
  by (simp add: double_daily_def round_double_0)

text \<open>
  C1, as amended. For aligned inputs, an index \<open>t\<close> from 1 to \<open>N - 1\<close> of \<open>swe.time\<close> and a
  cell where the three operands \<open>swe[t-1]\<close>, \<open>swe[t]\<close> and the precipitation at the
  timestamp \<open>swe.time[t]\<close> are valid doubles, \<open>calculate_lwf\<close> returns two datasets whose
  cell in row \<open>t - 1\<close> is, with every operation rounded to the nearest double: in the
  first the rate \<open>flux / 86400000\<close> of the flux
  \<open>max 0 (swe[t-1] - swe[t] + precip[t])\<close>, and in the second that rate multiplied by
  86400 and by 1000. The second is the rate scaled back, not the flux itself, and the two
  can differ in the last bit: for a uniform \<open>swe\<close> of 10 then 8 and a precipitation of 1
  the rate is the double nearest to \<open>3 / 86400000\<close>, which is
  \<open>5247073869855161 / 2 ^ 77\<close>, and the daily value is \<open>3 - 1 / 2 ^ 51\<close>
  (2.9999999999999996); for a \<open>swe\<close> of 8 then 10 both are 0.
\<close>

theorem calculate_lwf_double_flux_formula:
  assumes "aligned swe precip" and "times_present swe precip"
    and "1 \<le> t" and "t < length (time swe)"
    and "i < length (latitude swe)" and "j < length (longitude swe)"
    and "data swe ! (t - 1) ! i ! j = Some a"
    and "data swe ! t ! i ! j = Some b"
    and "precip_at precip (time swe ! t) ! i ! j = Some p"
    and "double_operand a" and "double_operand b" and "double_operand p"
  shows "\<exists>lwf_rate lwf_daily.
           calculate_lwf_double swe precip = Inr (lwf_rate, lwf_daily) \<and>
           data lwf_rate ! (t - 1) ! i ! j = Some (double_rate (double_flux a b p)) \<and>
           data lwf_daily ! (t - 1) ! i ! j =
             Some (double_daily (double_rate (double_flux a b p)))"
proof -
  from assms(4) have ne: "time swe \<noteq> []" by auto
  have c: "rate_rows_double swe precip ! (t - 1) ! i ! j = Some (double_rate (double_flux a b p))"
    using rate_rows_double_cell [OF assms(1-6)] assms(7-9) by (simp only: double_formula_Some)
  have sh: "shape_ok (latitude swe) (longitude swe) (rate_rows_double swe precip ! (t - 1))"
    using assms(1-4) by (rule rate_rows_double_shape)
  have l: "t - 1 < length (rate_rows_double swe precip)"
    using assms(3,4) by (simp add: rate_rows_double_def)
  have li: "i < length (rate_rows_double swe precip ! (t - 1))"
    using sh assms(5) by (simp add: shape_ok_def)
  have lj: "j < length (rate_rows_double swe precip ! (t - 1) ! i)"
    using sh assms(5,6) by (simp add: shape_ok_nth)
  have "map (map (map (\<lambda>c. double_mul (double_mul c 86400) 1000))) (rate_rows_double swe precip)
             ! (t - 1) ! i ! j =
        double_mul (double_mul (rate_rows_double swe precip ! (t - 1) ! i ! j) 86400) 1000"
    by (rule daily_nth [OF l li lj])
  also have "\<dots> = Some (double_daily (double_rate (double_flux a b p)))"
    unfolding c by (simp add: double_mul_def double_daily_def)
  finally have d: "map (map (map (\<lambda>c. double_mul (double_mul c 86400) 1000)))
      (rate_rows_double swe precip) ! (t - 1) ! i ! j =
        Some (double_daily (double_rate (double_flux a b p)))" .
  show ?thesis
    using calculate_lwf_double_ok [OF assms(1) ne assms(2)] c d by simp
qed

theorem calculate_lwf_double_flux_formula_witness:
  "aligned swe_10_8 precip_1 \<and> times_present swe_10_8 precip_1 \<and>
   double_operand 10 \<and> double_operand 8 \<and> double_operand 1 \<and>
   (\<exists>lwf_rate lwf_daily.
      calculate_lwf_double swe_10_8 precip_1 = Inr (lwf_rate, lwf_daily) \<and>
      data lwf_rate ! 0 ! 1 ! 1 = Some (5247073869855161 / 2 ^ 77) \<and>
      data lwf_daily ! 0 ! 1 ! 1 = Some (3 - 1 / 2 ^ 51)) \<and>
   aligned swe_8_10 precip_1 \<and> times_present swe_8_10 precip_1 \<and>
   (\<exists>lwf_rate lwf_daily.
      calculate_lwf_double swe_8_10 precip_1 = Inr (lwf_rate, lwf_daily) \<and>
      data lwf_rate ! 0 ! 1 ! 1 = Some 0 \<and>
      data lwf_daily ! 0 ! 1 ! 1 = Some 0)"
proof -
  have m: "\<exists>lwf_rate lwf_daily.
      calculate_lwf_double swe_10_8 precip_1 = Inr (lwf_rate, lwf_daily) \<and>
      data lwf_rate ! (1 - 1) ! 1 ! 1 = Some (double_rate (double_flux 10 8 1)) \<and>
      data lwf_daily ! (1 - 1) ! 1 ! 1 = Some (double_daily (double_rate (double_flux 10 8 1)))"
    by (rule calculate_lwf_double_flux_formula [OF aligned_swe_10_8 times_present_precip_1(1)])
      (simp_all add: example_defs precip_at_def first_index_def double_operand_examples)
  have a: "\<exists>lwf_rate lwf_daily.
      calculate_lwf_double swe_8_10 precip_1 = Inr (lwf_rate, lwf_daily) \<and>
      data lwf_rate ! (1 - 1) ! 1 ! 1 = Some (double_rate (double_flux 8 10 1)) \<and>
      data lwf_daily ! (1 - 1) ! 1 ! 1 = Some (double_daily (double_rate (double_flux 8 10 1)))"
    by (rule calculate_lwf_double_flux_formula [OF aligned_swe_8_10 times_present_precip_1(2)])
      (simp_all add: example_defs precip_at_def first_index_def double_operand_examples)
  from m have m': "\<exists>lwf_rate lwf_daily.
      calculate_lwf_double swe_10_8 precip_1 = Inr (lwf_rate, lwf_daily) \<and>
      data lwf_rate ! 0 ! 1 ! 1 = Some (5247073869855161 / 2 ^ 77) \<and>
      data lwf_daily ! 0 ! 1 ! 1 = Some (3 - 1 / 2 ^ 51)"
    unfolding double_flux_melt double_rate_3 double_daily_3 by simp
  from a have a': "\<exists>lwf_rate lwf_daily.
      calculate_lwf_double swe_8_10 precip_1 = Inr (lwf_rate, lwf_daily) \<and>
      data lwf_rate ! 0 ! 1 ! 1 = Some 0 \<and>
      data lwf_daily ! 0 ! 1 ! 1 = Some 0"
    unfolding double_flux_accumulation double_rate_0 double_daily_0 by simp
  from m' a' aligned_swe_10_8 aligned_swe_8_10 times_present_precip_1(1,2)
    double_operand_examples
  show ?thesis by blast
qed

lemma double_cells_melt:
  "double_sub (Some 10) (Some 8) = Some 2"
  "double_add (Some 2) (Some 1) = Some 3"
  "double_div (Some 3) 86400000 = Some (double_rate 3)"
  "double_mul (double_mul (Some (double_rate 3)) 86400) 1000 = Some (double_daily (double_rate 3))"
  by (simp_all add: double_sub_def double_add_def double_div_def double_mul_def
      round_double_2 round_double_3 double_rate_def double_daily_def)

lemma scenario_melt_double:
  "calculate_lwf_double swe_10_8 precip_1 =
     Inr (\<lparr>time = [1], latitude = [0, 1], longitude = [0, 1],
           data = [uniform (double_rate 3)]\<rparr>,
          \<lparr>time = [1], latitude = [0, 1], longitude = [0, 1],
           data = [uniform (double_daily (double_rate 3))]\<rparr>)"
  by (simp add: calculate_lwf_double_def sel_time_def first_index_def binop_def reindex_def
      join_inner_def slice_map_def assign_row_def cell_where_neg_def Let_def example_defs
      double_cells_melt)

text \<open>
  The claim C1 as stated fails: on the uniform \<open>swe\<close> of 10 then 8 and the precipitation
  of 1 the flux is 3, every cell of the first result is the double nearest to
  \<open>3 / 86400000\<close>, and every cell of the second result is \<open>3 - 1 / 2 ^ 51\<close>, which is
  not 3.
\<close>

theorem calculate_lwf_daily_differs_from_flux_counterexample:
  "calculate_lwf_double swe_10_8 precip_1 =
     Inr (\<lparr>time = [1], latitude = [0, 1], longitude = [0, 1],
           data = [uniform (5247073869855161 / 2 ^ 77)]\<rparr>,
          \<lparr>time = [1], latitude = [0, 1], longitude = [0, 1],
           data = [uniform (3 - 1 / 2 ^ 51)]\<rparr>) \<and>
   3 - 1 / 2 ^ 51 \<noteq> (3::real)"
  unfolding scenario_melt_double double_rate_3 double_daily_3 by simp

section \<open>Missing data\<close>

text \<open>
  C4. If one of the three operands of a cell is NaN, the cell is NaN in both results: the
  clamping of negative values does not turn it into zero.
\<close>

theorem calculate_lwf_nodata_propagates:
  assumes "aligned swe precip" and "times_present swe precip"
    and "1 \<le> t" and "t < length (time swe)"
    and "i < length (latitude swe)" and "j < length (longitude swe)"
    and "data swe ! (t - 1) ! i ! j = None \<or> data swe ! t ! i ! j = None \<or>
         precip_at precip (time swe ! t) ! i ! j = None"
  shows "\<exists>lwf_rate lwf_daily.
           calculate_lwf swe precip = Inr (lwf_rate, lwf_daily) \<and>
           data lwf_rate ! (t - 1) ! i ! j = None \<and>
           data lwf_daily ! (t - 1) ! i ! j = None"
proof -
  from assms(4) have ne: "time swe \<noteq> []" by auto
  have c: "rate_rows swe precip ! (t - 1) ! i ! j = None"
    using rate_rows_cell [OF assms(1-6)] cell_formula_None [OF assms(7)] by simp
  have sh: "shape_ok (latitude swe) (longitude swe) (rate_rows swe precip ! (t - 1))"
    using assms(1-4) by (rule rate_rows_shape)
  have l: "t - 1 < length (rate_rows swe precip)"
    using assms(3,4) by (simp add: rate_rows_def)
  have li: "i < length (rate_rows swe precip ! (t - 1))"
    using sh assms(5) by (simp add: shape_ok_def)
  have lj: "j < length (rate_rows swe precip ! (t - 1) ! i)"
    using sh assms(5,6) by (simp add: shape_ok_nth)
  have "map (map (map (\<lambda>c. cell_mul (cell_mul c 86400) 1000))) (rate_rows swe precip)
             ! (t - 1) ! i ! j =
        cell_mul (cell_mul (rate_rows swe precip ! (t - 1) ! i ! j) 86400) 1000"
    by (rule daily_nth [OF l li lj])
  also have "\<dots> = None"
    unfolding c by (simp add: cell_mul_def)
  finally have d: "map (map (map (\<lambda>c. cell_mul (cell_mul c 86400) 1000))) (rate_rows swe precip)
             ! (t - 1) ! i ! j = None" .
  show ?thesis
    using calculate_lwf_ok [OF assms(1) ne assms(2)] c d by simp
qed

theorem calculate_lwf_nodata_propagates_witness:
  "aligned swe_missing precip_1 \<and> times_present swe_missing precip_1 \<and>
   data swe_missing ! 0 ! 0 ! 0 = None \<and>
   (\<exists>lwf_rate lwf_daily.
      calculate_lwf swe_missing precip_1 = Inr (lwf_rate, lwf_daily) \<and>
      data lwf_rate ! 0 ! 0 ! 0 = None \<and> data lwf_daily ! 0 ! 0 ! 0 = None)"
  using calculate_lwf_nodata_propagates [of swe_missing precip_1 1 0 0]
    aligned_swe_missing times_present_precip_1(3)
  by (simp add: example_defs)

section \<open>The time axis of the results\<close>

text \<open>
  C6. For a valid pair of inputs both results have the time axis \<open>swe.time[1:]\<close> and one
  row of data for each of its timestamps: the first timestamp of \<open>swe\<close> gives no row.
\<close>

theorem calculate_lwf_time_axis:
  assumes "aligned swe precip" and "time swe \<noteq> []" and "times_present swe precip"
  shows "\<exists>lwf_rate lwf_daily.
           calculate_lwf swe precip = Inr (lwf_rate, lwf_daily) \<and>
           time lwf_rate = tl (time swe) \<and> time lwf_daily = tl (time swe) \<and>
           length (data lwf_rate) = length (time swe) - 1 \<and>
           length (data lwf_daily) = length (time swe) - 1"
  using calculate_lwf_ok [OF assms] by (simp add: rate_rows_def)

theorem calculate_lwf_time_axis_witness:
  "aligned swe_10_8 precip_1 \<and> time swe_10_8 \<noteq> [] \<and> times_present swe_10_8 precip_1 \<and>
   (\<exists>lwf_rate lwf_daily.
      calculate_lwf swe_10_8 precip_1 = Inr (lwf_rate, lwf_daily) \<and>
      time lwf_rate = [1] \<and> time lwf_daily = [1] \<and>
      length (data lwf_rate) = 1 \<and> length (data lwf_daily) = 1)"
  using calculate_lwf_time_axis [of swe_10_8 precip_1]
    aligned_swe_10_8 times_present_precip_1(1)
  by (simp add: example_defs)

section \<open>Non-negative results\<close>

lemma nonneg_rows_update:
  "nonneg_rows d \<Longrightarrow> \<forall>row \<in> set g. \<forall>c \<in> set row. nonneg_cell c \<Longrightarrow> nonneg_rows (d[i := g])"
  unfolding nonneg_rows_def using set_update_subset_insert [of d i g] by blast

lemma clamped_cells_nonneg:
  "\<forall>row \<in> set (cells (slice_map (\<lambda>c. cell_div c (86400 * 1000)) (slice_map cell_where_neg s))).
     \<forall>c \<in> set row. nonneg_cell c"
  by (auto simp: slice_map_def nonneg_cell_def cell_div_def cell_where_neg_def
      split: option.splits)

lemma lwf_loop_nonneg:
  "lwf_loop swe precip acc ts = Inr r \<Longrightarrow> nonneg_rows (data acc) \<Longrightarrow> nonneg_rows (data r)"
proof (induction ts arbitrary: acc)
  case Nil
  then show ?case by simp
next
  case (Cons t ts)
  from Cons.prems(1) obtain s acc' where
    a: "assign_row acc (t - 1)
          (slice_map (\<lambda>c. cell_div c (86400 * 1000)) (slice_map cell_where_neg s)) = Inr acc'"
    and r: "lwf_loop swe precip acc' ts = Inr r"
    by (auto simp: Let_def split: sum.splits)
  from a have "data acc' = (data acc)[t - 1 :=
      cells (slice_map (\<lambda>c. cell_div c (86400 * 1000)) (slice_map cell_where_neg s))]"
    by (auto simp: assign_row_def split: if_splits)
  with Cons.prems(2) have "nonneg_rows (data acc')"
    using clamped_cells_nonneg [of s] by (simp add: nonneg_rows_update)
  with r show ?case by (rule Cons.IH)
qed

lemma nonneg_rows_zeros: "nonneg_rows (replicate n (replicate m (replicate k (Some 0))))"
  by (auto simp: nonneg_rows_def nonneg_cell_def)

lemma nonneg_rows_daily:
  "nonneg_rows d \<Longrightarrow> nonneg_rows (map (map (map (\<lambda>c. cell_mul (cell_mul c 86400) 1000))) d)"
  by (auto simp: nonneg_rows_def nonneg_cell_def cell_mul_def split: option.splits)

lemma nonneg_rows_Some:
  "nonneg_rows d \<Longrightarrow> \<forall>g \<in> set d. \<forall>row \<in> set g. \<forall>v. Some v \<in> set row \<longrightarrow> 0 \<le> v"
  by (force simp: nonneg_rows_def nonneg_cell_def)

text \<open>
  C7. Every cell of the two results that is not NaN is non-negative. This holds for
  whatever \<open>calculate_lwf\<close> returns, on any inputs: each row is written after the
  clamping, and the scalings are by positive constants.
\<close>

theorem calculate_lwf_nonneg:
  assumes "calculate_lwf swe precip = Inr (lwf_rate, lwf_daily)"
  shows "(\<forall>g \<in> set (data lwf_rate). \<forall>row \<in> set g. \<forall>v. Some v \<in> set row \<longrightarrow> 0 \<le> v) \<and>
         (\<forall>g \<in> set (data lwf_daily). \<forall>row \<in> set g. \<forall>v. Some v \<in> set row \<longrightarrow> 0 \<le> v)"
proof -
  let ?acc = "\<lparr>time = tl (time swe), latitude = latitude swe, longitude = longitude swe,
               data = replicate (length (time swe) - 1)
                        (replicate (length (latitude swe))
                           (replicate (length (longitude swe)) (Some (0::real))))\<rparr>"
  from assms have loop: "lwf_loop swe precip ?acc [1..<length (time swe)] = Inr lwf_rate"
    and daily: "data lwf_daily =
      map (map (map (\<lambda>c. cell_mul (cell_mul c 86400) 1000))) (data lwf_rate)"
    by (auto simp: calculate_lwf_def Let_def split: if_splits sum.splits)
  have "nonneg_rows (data ?acc)"
    by (simp add: nonneg_rows_zeros)
  with loop have r: "nonneg_rows (data lwf_rate)"
    by (rule lwf_loop_nonneg)
  then have "nonneg_rows (data lwf_daily)"
    unfolding daily by (rule nonneg_rows_daily)
  with r show ?thesis
    by (simp add: nonneg_rows_Some)
qed

theorem calculate_lwf_nonneg_witness:
  "calculate_lwf swe_10_8 precip_1 =
     Inr (\<lparr>time = [1], latitude = [0, 1], longitude = [0, 1],
           data = [uniform (3 / 86400000)]\<rparr>,
          \<lparr>time = [1], latitude = [0, 1], longitude = [0, 1], data = [uniform 3]\<rparr>) \<and>
   Some (3 / 86400000) \<in> set (uniform (3 / 86400000) ! 0) \<and> (0::real) \<le> 3 / 86400000 \<and>
   Some 3 \<in> set (uniform 3 ! 0) \<and> (0::real) \<le> 3"
  using calculate_lwf_nonneg [OF scenario_melt] scenario_melt
  by (simp add: uniform_def)

section \<open>The two units\<close>



section \<open>Timestamps that \<open>precip\<close> does not have\<close>

lemma sel_time_nth:
  "t < length (time a) \<Longrightarrow> \<exists>s. sel_time a (time a ! t) = Inr s \<and> lat s = latitude a \<and> lon s = longitude a"
  by (simp add: sel_time_def)

lemma lwf_loop_missing:
  assumes "aligned swe precip"
    and "\<forall>t \<in> set ts. 1 \<le> t \<and> t < length (time swe)"
    and "\<exists>t \<in> set ts. time swe ! t \<notin> set (time precip)"
    and "latitude acc = latitude swe" "longitude acc = longitude swe"
  shows "lwf_loop swe precip acc ts = Inl KeyError"
  using assms
proof (induction ts arbitrary: acc)
  case Nil
  then show ?case by simp
next
  case (Cons t ts)
  from Cons.prems(2) have t: "1 \<le> t" "t < length (time swe)" by simp_all
  show ?case
  proof (cases "time swe ! t \<in> set (time precip)")
    case True
    let ?acc = "acc\<lparr>data := (data acc)[t - 1 := rate_grid (data swe ! (t - 1)) (data swe ! t)
                                                  (precip_at precip (time swe ! t))]\<rparr>"
    have "lwf_loop swe precip acc (t # ts) = lwf_loop swe precip ?acc ts"
      using Cons.prems(1) t True Cons.prems(4,5) by (rule lwf_step)
    moreover from True Cons.prems(3) have "\<exists>t \<in> set ts. time swe ! t \<notin> set (time precip)"
      by auto
    then have "lwf_loop swe precip ?acc ts = Inl KeyError"
      using Cons.prems by (intro Cons.IH) simp_all
    ultimately show ?thesis by simp
  next
    case False
    from t have "t - 1 < length (time swe)" by simp
    then obtain s0 where s0: "sel_time swe (time swe ! (t - 1)) = Inr s0"
      using sel_time_nth by blast
    from t obtain s1 where s1: "sel_time swe (time swe ! t) = Inr s1"
      using sel_time_nth by blast
    from False have p: "sel_time precip (time swe ! t) = Inl KeyError"
      by (simp add: sel_time_def)
    show ?thesis
      by (simp only: lwf_loop.simps Let_def s0 s1 p sum.case)
  qed
qed

text \<open>
  C5. The precipitation is looked up by the value of the timestamp \<open>swe.time[t]\<close>, for
  \<open>t\<close> from 1 to \<open>N - 1\<close>. On aligned inputs \<open>calculate_lwf\<close> raises KeyError (the
  time alignment error of the specification) exactly when one of these timestamps is
  not a timestamp of \<open>precip\<close>; the positions of the timestamps in \<open>precip.time\<close> play no
  role.
\<close>

theorem calculate_lwf_time_alignment:
  assumes "aligned swe precip" and "time swe \<noteq> []"
  shows "calculate_lwf swe precip = Inl KeyError \<longleftrightarrow>
           (\<exists>t. 1 \<le> t \<and> t < length (time swe) \<and> time swe ! t \<notin> set (time precip))"
proof
  assume e: "calculate_lwf swe precip = Inl KeyError"
  show "\<exists>t. 1 \<le> t \<and> t < length (time swe) \<and> time swe ! t \<notin> set (time precip)"
  proof (rule ccontr)
    assume "\<not> ?thesis"
    then have "\<forall>t. 1 \<le> t \<and> t < length (time swe) \<longrightarrow> time swe ! t \<in> set (time precip)"
      by blast
    then have all: "\<And>t. 1 \<le> t \<Longrightarrow> t < length (time swe) \<Longrightarrow> time swe ! t \<in> set (time precip)"
      by blast
    have "times_present swe precip"
      unfolding times_present_def
    proof
      fix d assume "d \<in> set (tl (time swe))"
      then obtain k where k: "k < length (tl (time swe))" "tl (time swe) ! k = d"
        by (auto simp: in_set_conv_nth)
      then have "time swe ! Suc k = d"
        by (simp add: nth_tl)
      moreover from k have "Suc k < length (time swe)" by simp
      ultimately show "d \<in> set (time precip)"
        using all [of "Suc k"] by simp
    qed
    with assms have "\<exists>r. calculate_lwf swe precip = Inr r"
      by (simp add: calculate_lwf_ok)
    with e show False by simp
  qed
next
  assume "\<exists>t. 1 \<le> t \<and> t < length (time swe) \<and> time swe ! t \<notin> set (time precip)"
  then obtain t where t: "1 \<le> t" "t < length (time swe)" "time swe ! t \<notin> set (time precip)"
    by blast
  let ?acc = "\<lparr>time = tl (time swe), latitude = latitude swe, longitude = longitude swe,
               data = replicate (length (time swe) - 1)
                        (replicate (length (latitude swe))
                           (replicate (length (longitude swe)) (Some (0::real))))\<rparr>"
  have "lwf_loop swe precip ?acc [1..<length (time swe)] = Inl KeyError"
  proof (rule lwf_loop_missing [OF assms(1)])
    show "\<forall>t \<in> set [1..<length (time swe)]. 1 \<le> t \<and> t < length (time swe)" by simp
    show "\<exists>t \<in> set [1..<length (time swe)]. time swe ! t \<notin> set (time precip)"
      using t by auto
  qed simp_all
  moreover from assms(2) have "length (time swe) \<noteq> 0" by simp
  ultimately show "calculate_lwf swe precip = Inl KeyError"
    unfolding calculate_lwf_def Let_def by simp
qed


theorem calculate_lwf_time_alignment_witness:
  "aligned swe_10_8 precip_d0 \<and> time swe_10_8 = [0, 1] \<and> time precip_d0 = [0] \<and>
   calculate_lwf swe_10_8 precip_d0 = Inl KeyError"
proof -
  have "\<exists>t. 1 \<le> t \<and> t < length (time swe_10_8) \<and> time swe_10_8 ! t \<notin> set (time precip_d0)"
    by (rule exI [of _ 1]) (simp add: example_defs)
  moreover have "time swe_10_8 \<noteq> []"
    by (simp add: example_defs)
  ultimately have "calculate_lwf swe_10_8 precip_d0 = Inl KeyError"
    using calculate_lwf_time_alignment [OF aligned_precip_d0] by simp
  then show ?thesis
    using aligned_precip_d0 by (simp add: example_defs)
qed

section \<open>Inputs on different grids\<close>

lemma join_inner_neq:
  "\<not> set xs \<subseteq> set ys \<Longrightarrow> join_inner xs ys \<noteq> xs"
  by (auto simp: join_inner_def filter_id_conv)

lemma lwf_first_pass_conflict:
  assumes "2 \<le> length (time swe)"
    and "\<not> set (latitude swe) \<subseteq> set (latitude precip) \<or>
         \<not> set (longitude swe) \<subseteq> set (longitude precip)"
  shows "calculate_lwf swe precip =
           Inl (if time swe ! 1 \<in> set (time precip) then IndexError else KeyError)"
proof -
  let ?acc = "\<lparr>time = tl (time swe), latitude = latitude swe, longitude = longitude swe,
               data = replicate (length (time swe) - 1)
                        (replicate (length (latitude swe))
                           (replicate (length (longitude swe)) (Some (0::real))))\<rparr>"
  from assms(1) have "1 < length (time swe)" by simp
  then have ts: "[1..<length (time swe)] = 1 # [Suc 1..<length (time swe)]"
    by (rule upt_conv_Cons)
  from assms(1) have ne: "time swe \<noteq> []" by auto
  then have "0 < length (time swe)" by simp
  then have m0: "time swe ! 0 \<in> set (time swe)" by (rule nth_mem)
  from \<open>1 < length (time swe)\<close> have m1: "time swe ! 1 \<in> set (time swe)" by (rule nth_mem)
  note m = m1 m0
  have j: "join_inner (join_inner (latitude swe) (latitude swe)) (latitude precip) \<noteq> latitude swe \<or>
           join_inner (join_inner (longitude swe) (longitude swe)) (longitude precip) \<noteq> longitude swe"
    unfolding join_inner_self
    using assms(2) join_inner_neq [of "latitude swe" "latitude precip"]
      join_inner_neq [of "longitude swe" "longitude precip"]
    by blast
  have "lwf_loop swe precip ?acc (1 # [Suc 1..<length (time swe)]) =
          Inl (if time swe ! 1 \<in> set (time precip) then IndexError else KeyError)"
    using m j by (simp add: sel_time_def binop_def slice_map_def assign_row_def Let_def)
  moreover from ne have "length (time swe) \<noteq> 0" by simp
  ultimately show ?thesis
    unfolding calculate_lwf_def Let_def ts by simp
qed

lemma join_inner_sub:
  "set xs \<subseteq> set ys \<Longrightarrow> join_inner xs ys = xs"
  by (auto simp: join_inner_def filter_id_conv)

lemma lwf_loop_contained:
  assumes "set (latitude swe) \<subseteq> set (latitude precip)"
    and "set (longitude swe) \<subseteq> set (longitude precip)"
    and "\<forall>t \<in> set ts. t < length (time swe) \<and> t - 1 < length (time swe) \<and>
           time swe ! t \<in> set (time precip)"
    and "latitude acc = latitude swe" "longitude acc = longitude swe"
  shows "\<exists>r. lwf_loop swe precip acc ts = Inr r"
  using assms(3-5)
proof (induction ts arbitrary: acc)
  case Nil
  then show ?case by simp
next
  case (Cons t ts)
  from Cons.prems(1) have t: "time swe ! t \<in> set (time swe)" "time swe ! (t - 1) \<in> set (time swe)"
    "time swe ! t \<in> set (time precip)"
    by (simp_all add: nth_mem)
  let ?lwf = "slice_map (\<lambda>c. cell_div c (86400 * 1000)) (slice_map cell_where_neg
      (binop cell_add
        (binop cell_sub
           \<lparr>lat = latitude swe, lon = longitude swe,
            cells = data swe ! first_index (time swe ! (t - 1)) (time swe)\<rparr>
           \<lparr>lat = latitude swe, lon = longitude swe,
            cells = data swe ! first_index (time swe ! t) (time swe)\<rparr>)
        \<lparr>lat = latitude precip, lon = longitude precip,
         cells = data precip ! first_index (time swe ! t) (time precip)\<rparr>))"
  have ax: "lat ?lwf = latitude swe" "lon ?lwf = longitude swe"
    using assms(1,2) by (simp_all add: slice_map_def binop_def Let_def join_inner_self join_inner_sub)
  have "lwf_loop swe precip acc (t # ts) =
      (case assign_row acc (t - 1) ?lwf of Inl e \<Rightarrow> Inl e
       | Inr lwf_data' \<Rightarrow> lwf_loop swe precip lwf_data' ts)"
    using t by (simp only: lwf_loop.simps Let_def sel_time_def if_True sum.case)
  also have "\<dots> = lwf_loop swe precip (acc\<lparr>data := (data acc)[t - 1 := cells ?lwf]\<rparr>) ts"
    using ax Cons.prems(2,3) by (simp only: assign_row_def) simp
  finally have "lwf_loop swe precip acc (t # ts) =
      lwf_loop swe precip (acc\<lparr>data := (data acc)[t - 1 := cells ?lwf]\<rparr>) ts" .
  moreover have "\<exists>r. lwf_loop swe precip (acc\<lparr>data := (data acc)[t - 1 := cells ?lwf]\<rparr>) ts = Inr r"
    using Cons.prems by (intro Cons.IH) simp_all
  ultimately show ?case by simp
qed

text \<open>
  C9, as amended. \<open>calculate_lwf\<close> has no check of the grids of its own. For two
  well-formed datasets (\<open>wf_data_array\<close>: unique labels on every axis, data of the shape
  of the axes), a \<open>swe\<close> of at least two timestamps, all of them but the first present in
  \<open>precip\<close>: when some latitude or longitude of \<open>swe\<close> is not a label of the same axis of
  \<open>precip\<close>, it raises IndexError (the assignment of a grid whose coordinates conflict
  with those of \<open>lwf_data\<close>); when every label of \<open>swe\<close> is a label of \<open>precip\<close>, it
  raises nothing and returns results, also when the two grids differ.
\<close>

theorem calculate_lwf_grid_conflict:
  assumes "wf_data_array swe" and "wf_data_array precip"
    and "2 \<le> length (time swe)" and "times_present swe precip"
  shows "if set (latitude swe) \<subseteq> set (latitude precip) \<and>
            set (longitude swe) \<subseteq> set (longitude precip)
         then \<exists>lwf_rate lwf_daily. calculate_lwf swe precip = Inr (lwf_rate, lwf_daily)
         else calculate_lwf swe precip = Inl IndexError"
proof (cases "set (latitude swe) \<subseteq> set (latitude precip) \<and>
              set (longitude swe) \<subseteq> set (longitude precip)")
  case True
  let ?acc = "\<lparr>time = tl (time swe), latitude = latitude swe, longitude = longitude swe,
               data = replicate (length (time swe) - 1)
                        (replicate (length (latitude swe))
                           (replicate (length (longitude swe)) (Some (0::real))))\<rparr>"
  have "\<forall>t \<in> set [1..<length (time swe)]. t < length (time swe) \<and> t - 1 < length (time swe) \<and>
           time swe ! t \<in> set (time precip)"
    using assms(4) by (auto simp: times_present_nth)
  with True have "\<exists>r. lwf_loop swe precip ?acc [1..<length (time swe)] = Inr r"
    by (intro lwf_loop_contained) simp_all
  moreover from assms(3) have "time swe \<noteq> []" by auto
  ultimately have "\<exists>lwf_rate lwf_daily. calculate_lwf swe precip = Inr (lwf_rate, lwf_daily)"
    unfolding calculate_lwf_def Let_def by auto
  with True show ?thesis by simp
next
  case False
  from assms(3) have "1 < length (time swe)" by auto
  with assms(4) have "time swe ! 1 \<in> set (time precip)"
    by (simp add: times_present_nth)
  moreover from False have "\<not> set (latitude swe) \<subseteq> set (latitude precip) \<or>
      \<not> set (longitude swe) \<subseteq> set (longitude precip)"
    by simp
  ultimately have "calculate_lwf swe precip = Inl IndexError"
    using lwf_first_pass_conflict [OF assms(3)] by simp
  with False show ?thesis by simp
qed

theorem calculate_lwf_grid_conflict_witness:
  "wf_data_array swe_10_8 \<and> wf_data_array precip_shifted \<and>
   2 \<le> length (time swe_10_8) \<and> times_present swe_10_8 precip_shifted \<and>
   \<not> set (latitude swe_10_8) \<subseteq> set (latitude precip_shifted) \<and>
   calculate_lwf swe_10_8 precip_shifted = Inl IndexError"
  using calculate_lwf_grid_conflict [of swe_10_8 precip_shifted]
  by (simp add: example_defs times_present_def wf_data_array_def shape_ok_def)

text \<open>
  The claim C9 as stated fails: the grid of \<open>precip_wide\<close> differs from that of
  \<open>swe_10_8\<close> (it has one more latitude), and \<open>calculate_lwf\<close> returns results, computed
  on the labels the two grids share.
\<close>

theorem calculate_lwf_differing_grids_counterexample:
  "latitude precip_wide \<noteq> latitude swe_10_8 \<and>
   calculate_lwf swe_10_8 precip_wide =
     Inr (\<lparr>time = [1], latitude = [0, 1], longitude = [0, 1],
           data = [uniform (3 / 86400000)]\<rparr>,
          \<lparr>time = [1], latitude = [0, 1], longitude = [0, 1], data = [uniform 3]\<rparr>)"
  by (simp add: lwf_eval example_defs)

section \<open>A swe of a single day\<close>

text \<open>
  C10. When \<open>swe\<close> has exactly one timestamp, \<open>calculate_lwf\<close> raises nothing, whatever
  \<open>precip\<close> is: the loop has no pass, and both results have an empty time axis and a data
  array of zero rows.
\<close>

theorem calculate_lwf_single_timestamp:
  assumes "length (time swe) = 1"
  shows "calculate_lwf swe precip =
           Inr (\<lparr>time = [], latitude = latitude swe, longitude = longitude swe, data = []\<rparr>,
                \<lparr>time = [], latitude = latitude swe, longitude = longitude swe, data = []\<rparr>)"
proof -
  from assms obtain d where "time swe = [d]"
    by (cases "time swe") auto
  then show ?thesis
    by (simp add: calculate_lwf_def Let_def)
qed

theorem calculate_lwf_single_timestamp_witness:
  "length (time swe_one_day) = 1 \<and>
   calculate_lwf swe_one_day precip_shifted =
     Inr (\<lparr>time = [], latitude = [0, 1], longitude = [0, 1], data = []\<rparr>,
          \<lparr>time = [], latitude = [0, 1], longitude = [0, 1], data = []\<rparr>)"
  using calculate_lwf_single_timestamp [of swe_one_day precip_shifted]
  by (simp add: swe_one_day_def)


section \<open>Evaluation of the resampling\<close>

lemmas resample_defs =
  snodas_desc_def snodas_asc_def capa_target_def snodas_gap_def row3_def uniform_def

lemmas resample_eval =
  resample_SNODAS_to_CaPA_def crop_CaPA_def where_drop_def in_extent_def meshgrid_def
  resample_step_def griddata_def valid_samples_def nan_interp_def Let_def

lemma crop_asc:
  "crop_CaPA snodas_asc capa_target =
     Inr \<lparr>time = [0, 1], latitude = [1/2, 3/2], longitude = [1/2, 3/2],
          data = [[[Some 1, Some 1], [Some 1, Some 1]], [[Some 2, Some 2], [Some 2, Some 2]]]\<rparr>"
  by (simp add: resample_eval resample_defs)


section \<open>Time steps with fewer than three valid points\<close>

lemma length_valid_samples:
  "length vs = length points \<Longrightarrow>
     length (valid_samples points vs) = length (filter (\<lambda>c. c \<noteq> None) vs)"
proof (induction points arbitrary: vs)
  case Nil
  then show ?case by (simp add: valid_samples_def)
next
  case (Cons p points)
  then obtain c cs where vs: "vs = c # cs" and l: "length cs = length points"
    by (cases vs) auto
  from Cons.IH [OF l] show ?case
    by (simp add: vs valid_samples_def split: option.splits)
qed

lemma resample_step_insufficient:
  assumes "count_valid (data SNODAS_SWE ! t) < 3"
  shows "\<exists>e. resample_step interp SNODAS_SWE points xi t = Inl e"
proof (cases "length (concat (data SNODAS_SWE ! t)) = length points")
  case True
  with assms have "length (valid_samples points (concat (data SNODAS_SWE ! t))) < 3"
    by (simp add: length_valid_samples count_valid_def)
  with True show ?thesis
    by (simp add: resample_step_def griddata_def Let_def)
next
  case False
  then show ?thesis
    by (simp add: resample_step_def Let_def)
qed

lemma resample_loop_insufficient:
  assumes "t \<in> set ts" and "count_valid (data SNODAS_SWE ! t) < 3"
  shows "\<exists>e. resample_loop interp SNODAS_SWE points xi upscaled_swe ts = Inl e"
  using assms(1)
proof (induction ts arbitrary: upscaled_swe)
  case Nil
  then show ?case by simp
next
  case (Cons u ts)
  show ?case
  proof (cases "resample_step interp SNODAS_SWE points xi u")
    case (Inl e)
    then show ?thesis by simp
  next
    case (Inr g)
    with resample_step_insufficient [OF assms(2), of interp points xi] have "u \<noteq> t"
      by auto
    with Cons.prems have "t \<in> set ts" by simp
    then have "\<exists>e. resample_loop interp SNODAS_SWE points xi (upscaled_swe[u := g]) ts = Inl e"
      by (rule Cons.IH)
    with Inr show ?thesis by simp
  qed
qed

lemma length_concat_rows:
  "\<forall>row \<in> set g. length row = n \<Longrightarrow> length (concat g) = length g * n"
  by (induction g) simp_all

lemma length_concat_shape_ok:
  "shape_ok las los g \<Longrightarrow> length (concat g) = length las * length los"
  using length_concat_rows [of g "length los"] by (simp add: shape_ok_def)

lemma length_concat_meshgrid:
  "length (concat (meshgrid lons lats)) = length lats * length lons"
  by (induction lats) (simp_all add: meshgrid_def)

lemma resample_step_exception:
  assumes "shape_ok (latitude SNODAS_SWE) (longitude SNODAS_SWE) (data SNODAS_SWE ! t)"
    and "count_valid (data SNODAS_SWE ! t) < 3"
  shows "resample_step interp SNODAS_SWE
           (concat (meshgrid (longitude SNODAS_SWE) (latitude SNODAS_SWE))) xi t =
         Inl (if count_valid (data SNODAS_SWE ! t) = 0 then ValueError else QhullError)"
proof -
  let ?points = "concat (meshgrid (longitude SNODAS_SWE) (latitude SNODAS_SWE))"
  have l: "length (concat (data SNODAS_SWE ! t)) = length ?points"
    using assms(1) by (simp add: length_concat_shape_ok length_concat_meshgrid)
  then have "length (valid_samples ?points (concat (data SNODAS_SWE ! t))) =
      count_valid (data SNODAS_SWE ! t)"
    by (simp add: length_valid_samples count_valid_def)
  then have "length (map fst (valid_samples ?points (concat (data SNODAS_SWE ! t)))) =
      count_valid (data SNODAS_SWE ! t)"
    by simp
  with assms(2) have "griddata interp (map fst (valid_samples ?points (concat (data SNODAS_SWE ! t))))
      (map snd (valid_samples ?points (concat (data SNODAS_SWE ! t)))) xi =
    Inl (if count_valid (data SNODAS_SWE ! t) = 0 then ValueError else QhullError)"
    unfolding griddata_def by (simp only: if_True split: if_splits) simp
  with l show ?thesis
    by (simp add: resample_step_def Let_def)
qed

lemma resample_loop_first_failure:
  assumes "\<forall>u \<in> set us. \<exists>g. resample_step interp SNODAS_SWE points xi u = Inr g"
    and "resample_step interp SNODAS_SWE points xi t = Inl e"
  shows "resample_loop interp SNODAS_SWE points xi upscaled_swe (us @ t # ts) = Inl e"
  using assms(1)
proof (induction us arbitrary: upscaled_swe)
  case Nil
  from assms(2) show ?case by simp
next
  case (Cons u us)
  then obtain g where g: "resample_step interp SNODAS_SWE points xi u = Inr g"
    by auto
  from Cons.prems have "\<forall>u \<in> set us. \<exists>g. resample_step interp SNODAS_SWE points xi u = Inr g"
    by simp
  then have "resample_loop interp SNODAS_SWE points xi (upscaled_swe[u := g]) (us @ t # ts) = Inl e"
    by (rule Cons.IH)
  with g show ?case by simp
qed

lemma upt_split:
  "t < n \<Longrightarrow> [0..<n] = [0..<t] @ t # [Suc t..<n]"
  using upt_add_eq_append [of 0 t "n - t"] by (simp add: upt_conv_Cons)

text \<open>
  C3, as amended. When some time step \<open>t\<close> of the source has fewer than three valid
  points, \<open>resample_SNODAS_to_CaPA\<close> raises: the exception of the triangulation is not
  caught, the loop stops there and no dataset is returned, for any interpolator and any
  target. When moreover the source is well formed, the crop succeeds and the passes of the
  loop before \<open>t\<close> succeed, the exception is that of the triangulation of the step \<open>t\<close>:
  ValueError when the step has no valid point, QhullError when it has one or two.
\<close>

theorem resample_insufficient_points_aborts:
  assumes "t < length (time SNODAS_SWE)" and "count_valid (data SNODAS_SWE ! t) < 3"
  shows "(\<exists>e. resample_SNODAS_to_CaPA interp SNODAS_SWE CaPA = Inl e) \<and>
         (wf_data_array SNODAS_SWE \<and> crop_CaPA SNODAS_SWE CaPA = Inr CaPA' \<and>
          steps_succeed interp SNODAS_SWE CaPA' t \<longrightarrow>
            resample_SNODAS_to_CaPA interp SNODAS_SWE CaPA =
              Inl (if count_valid (data SNODAS_SWE ! t) = 0 then ValueError else QhullError))"
proof
  show "\<exists>e. resample_SNODAS_to_CaPA interp SNODAS_SWE CaPA = Inl e"
  proof (cases "crop_CaPA SNODAS_SWE CaPA")
    case (Inl e)
    then show ?thesis by (simp add: resample_SNODAS_to_CaPA_def)
  next
    case (Inr C)
    from assms(1) have "t \<in> set [0..<length (time SNODAS_SWE)]" by simp
    then obtain e where
      "resample_loop interp SNODAS_SWE
         (concat (meshgrid (longitude SNODAS_SWE) (latitude SNODAS_SWE)))
         (meshgrid (longitude C) (latitude C))
         (replicate (length (time SNODAS_SWE))
            (replicate (length (latitude C)) (replicate (length (longitude C)) (Some 0))))
         [0..<length (time SNODAS_SWE)] = Inl e"
      using resample_loop_insufficient [OF _ assms(2)] by blast
    with Inr show ?thesis
      by (simp add: resample_SNODAS_to_CaPA_def Let_def)
  qed
next
  let ?points = "concat (meshgrid (longitude SNODAS_SWE) (latitude SNODAS_SWE))"
  let ?xi = "meshgrid (longitude CaPA') (latitude CaPA')"
  let ?e = "if count_valid (data SNODAS_SWE ! t) = 0 then ValueError else QhullError"
  show "wf_data_array SNODAS_SWE \<and> crop_CaPA SNODAS_SWE CaPA = Inr CaPA' \<and>
        steps_succeed interp SNODAS_SWE CaPA' t \<longrightarrow>
          resample_SNODAS_to_CaPA interp SNODAS_SWE CaPA = Inl ?e"
  proof
    assume a: "wf_data_array SNODAS_SWE \<and> crop_CaPA SNODAS_SWE CaPA = Inr CaPA' \<and>
        steps_succeed interp SNODAS_SWE CaPA' t"
    then have wf: "wf_data_array SNODAS_SWE" and crop: "crop_CaPA SNODAS_SWE CaPA = Inr CaPA'"
      and st: "steps_succeed interp SNODAS_SWE CaPA' t"
      by simp_all
    have "shape_ok (latitude SNODAS_SWE) (longitude SNODAS_SWE) (data SNODAS_SWE ! t)"
      using wf assms(1) by (rule wf_grid_nth)
    then have f: "resample_step interp SNODAS_SWE ?points ?xi t = Inl ?e"
      using assms(2) by (rule resample_step_exception)
    have "\<forall>u \<in> set [0..<t]. \<exists>g. resample_step interp SNODAS_SWE ?points ?xi u = Inr g"
    proof
      fix u assume "u \<in> set [0..<t]"
      with st have "case resample_step interp SNODAS_SWE ?points ?xi u of
          Inl e \<Rightarrow> False | Inr upscaled_values \<Rightarrow> True"
        unfolding steps_succeed_def by (rule bspec)
      then show "\<exists>g. resample_step interp SNODAS_SWE ?points ?xi u = Inr g"
        by (cases "resample_step interp SNODAS_SWE ?points ?xi u") simp_all
    qed
    then have "resample_loop interp SNODAS_SWE ?points ?xi
         (replicate (length (time SNODAS_SWE))
            (replicate (length (latitude CaPA')) (replicate (length (longitude CaPA')) (Some 0))))
         ([0..<t] @ t # [Suc t..<length (time SNODAS_SWE)]) = Inl ?e"
      using f by (rule resample_loop_first_failure)
    then show "resample_SNODAS_to_CaPA interp SNODAS_SWE CaPA = Inl ?e"
      unfolding resample_SNODAS_to_CaPA_def crop Let_def upt_split [OF assms(1)] by simp
  qed
qed

theorem resample_insufficient_points_aborts_witness:
  "(1::nat) < length (time snodas_gap) \<and> count_valid (data snodas_gap ! 1) = 1 \<and>
   wf_data_array snodas_gap \<and>
   crop_CaPA snodas_gap capa_target =
     Inr \<lparr>time = [0, 1], latitude = [1/2], longitude = [1/2],
          data = [[[Some 1]], [[Some 2]]]\<rparr> \<and>
   steps_succeed nan_interp snodas_gap
     \<lparr>time = [0, 1], latitude = [1/2], longitude = [1/2],
      data = [[[Some 1]], [[Some 2]]]\<rparr> 1 \<and>
   resample_SNODAS_to_CaPA nan_interp snodas_gap capa_target = Inl QhullError \<and>
   (1::nat) < length (time snodas_void) \<and> count_valid (data snodas_void ! 1) = 0 \<and>
   wf_data_array snodas_void \<and>
   crop_CaPA snodas_void capa_target =
     Inr \<lparr>time = [0, 1], latitude = [1/2], longitude = [1/2],
          data = [[[Some 1]], [[Some 2]]]\<rparr> \<and>
   steps_succeed nan_interp snodas_void
     \<lparr>time = [0, 1], latitude = [1/2], longitude = [1/2],
      data = [[[Some 1]], [[Some 2]]]\<rparr> 1 \<and>
   resample_SNODAS_to_CaPA nan_interp snodas_void capa_target = Inl ValueError"
proof -
  let ?C = "\<lparr>time = [0, 1], latitude = [1/2], longitude = [1/2],
      data = [[[Some 1]], [[Some (2::real)]]]\<rparr>"
  have g: "(1::nat) < length (time snodas_gap)" "count_valid (data snodas_gap ! 1) = 1"
    "wf_data_array snodas_gap" "crop_CaPA snodas_gap capa_target = Inr ?C"
    "steps_succeed nan_interp snodas_gap ?C 1"
    by (simp_all add: resample_eval resample_defs count_valid_def wf_data_array_def shape_ok_def
        steps_succeed_def)
  have v: "(1::nat) < length (time snodas_void)" "count_valid (data snodas_void ! 1) = 0"
    "wf_data_array snodas_void" "crop_CaPA snodas_void capa_target = Inr ?C"
    "steps_succeed nan_interp snodas_void ?C 1"
    by (simp_all add: resample_eval resample_defs snodas_void_def count_valid_def
        wf_data_array_def shape_ok_def steps_succeed_def)
  have "resample_SNODAS_to_CaPA nan_interp snodas_gap capa_target = Inl QhullError"
    using resample_insufficient_points_aborts [of 1 snodas_gap nan_interp capa_target ?C] g
    by simp
  moreover have "resample_SNODAS_to_CaPA nan_interp snodas_void capa_target = Inl ValueError"
    using resample_insufficient_points_aborts [of 1 snodas_void nan_interp capa_target ?C] v
    by simp
  ultimately show ?thesis using g v by simp
qed

text \<open>
  The claim C3 as stated fails: the second day of \<open>snodas_gap\<close> has one valid point, the
  first day has four, and the run ends with the error of Qhull instead of a dataset whose
  second day is NaN.
\<close>

theorem resample_insufficient_points_counterexample:
  "count_valid (data snodas_gap ! 1) < 3 \<and>
   resample_SNODAS_to_CaPA nan_interp snodas_gap capa_target = Inl QhullError"
  by (simp add: resample_eval resample_defs count_valid_def)

section \<open>The crop\<close>

lemma sorted_hd_Min: "sorted xs \<Longrightarrow> xs \<noteq> [] \<Longrightarrow> hd xs = Min (set xs)"
  by (cases xs) (auto intro!: Min_eqI [symmetric])

lemma sorted_le_last: "sorted xs \<Longrightarrow> x \<in> set xs \<Longrightarrow> x \<le> last xs"
  by (induction xs) auto

lemma sorted_last_Max: "sorted xs \<Longrightarrow> xs \<noteq> [] \<Longrightarrow> last xs = Max (set xs)"
  by (auto intro!: Max_eqI [symmetric] simp: sorted_le_last)

text \<open>
  On a source whose axes are in ascending order the first and the last element of an axis
  are its minimum and its maximum, and the crop keeps exactly the cells of the target
  within the closed box of the source; the time axis is kept as it is.
\<close>

lemma crop_CaPA_ascending:
  fixes SNODAS_SWE :: data_array
  assumes "sorted (latitude SNODAS_SWE)" and "sorted (longitude SNODAS_SWE)"
    and "latitude SNODAS_SWE \<noteq> []" and "longitude SNODAS_SWE \<noteq> []"
  shows "\<exists>CaPA'. crop_CaPA SNODAS_SWE CaPA = Inr CaPA' \<and> time CaPA' = time CaPA \<and>
           length (data CaPA') = length (data CaPA) \<and>
           set (latitude CaPA') \<times> set (longitude CaPA') =
             {(la, lo). la \<in> set (latitude CaPA) \<and> lo \<in> set (longitude CaPA) \<and>
                Min (set (longitude SNODAS_SWE)) \<le> lo \<and> lo \<le> Max (set (longitude SNODAS_SWE)) \<and>
                Min (set (latitude SNODAS_SWE)) \<le> la \<and> la \<le> Max (set (latitude SNODAS_SWE))}"
  using assms
  by (auto simp: crop_CaPA_def where_drop_def in_extent_def Let_def sorted_hd_Min sorted_last_Max)

text \<open>
  C2. The crop is to keep the cells of the target within
  \<open>[min(source.lon), max(source.lon)] \<times> [min(source.lat), max(source.lat)]\<close>, for
  ascending and for descending axes. On \<open>snodas_desc\<close>, whose latitudes run from 2 down to
  0, the bounds \<open>SNODAS_lat_range[0] = 2\<close> and \<open>SNODAS_lat_range[-1] = 0\<close> are taken in
  the wrong order: no cell of \<open>capa_target\<close> is kept, although the cell at latitude
  \<open>1/2\<close> and longitude \<open>1/2\<close> lies within the box of the source.
\<close>

theorem crop_descending_source_drops_all:
  "crop_CaPA snodas_desc capa_target =
     Inr \<lparr>time = [0, 1], latitude = [], longitude = [], data = [[], []]\<rparr> \<and>
   1/2 \<in> set (latitude capa_target) \<and> 1/2 \<in> set (longitude capa_target) \<and>
   Min (set (latitude snodas_desc)) \<le> 1/2 \<and> 1/2 \<le> Max (set (latitude snodas_desc)) \<and>
   Min (set (longitude snodas_desc)) \<le> 1/2 \<and> 1/2 \<le> Max (set (longitude snodas_desc))"
  by (simp add: resample_eval resample_defs)


end
